theory Spec2Isabelle
  imports Main
begin

section \<open>Exceptions, the process state and effectful computations\<close>

text \<open>
  The scripts package is Python. Every exception the modelled code can raise is a
  constructor of \<open>exc\<close>; a computation returns \<open>Inl e\<close> when it raises \<open>e\<close>.
  \<open>CommandError\<close> is \<^verbatim>\<open>base.CommandError\<close>; it carries the optional message it was
  constructed with. \<open>SystemExit n\<close> is what the builtin \<^verbatim>\<open>exit(n)\<close> raises.
\<close>

datatype exc =
    CommandError "string option"
  | NotImplementedError
  | KeyError string
  | EOFError
  | FileNotFoundError
  | FileExistsError
  | NotADirectoryError
  | IsADirectoryError
  | SystemExit nat

text \<open>\<^verbatim>\<open>str(err)\<close> of a \<open>CommandError\<close>: the message, or the empty string without one.\<close>

fun str_err :: "string option \<Rightarrow> string" where
  "str_err None = []"
| "str_err (Some m) = m"

text \<open>
  A structured document value as handed to the serializer: a string, a list, or a
  mapping in insertion order (Python's \<^verbatim>\<open>dict\<close> and \<^verbatim>\<open>OrderedDict\<close>).
\<close>

datatype yaml = Str string | Seq "yaml list" | Map "(string \<times> yaml) list"

type_synonym odict = "(string \<times> yaml) list"

text \<open>
  A path is the list of its components below the file-system root. The content of a
  file is either raw text or \<open>Dumped d\<close>, the text the serializer emits for the
  document \<open>d\<close>; \<open>Text []\<close> is the empty file.
\<close>

type_synonym path = "string list"

datatype content = Text string | Dumped yaml

text \<open>
  The part of the process state the commands read and write: the current directory,
  the directories and regular files on disk, the command line, the lines still to be
  read from standard input and the lines this package printed to the error stream.
\<close>

record world =
  cwd :: path
  dirs :: "path set"
  files :: "path \<rightharpoonup> content"
  argv :: "string list"
  stdin :: "string list"
  stderr :: "string list"

type_synonym 'a io = "world \<Rightarrow> (exc + 'a) \<times> world"

text \<open>
  The exit status of the process once an entry point has finished: 0 after a normal
  return, the status of a \<open>SystemExit\<close>, and the interpreter's status 1 for any other
  exception that nobody caught.
\<close>

fun exit_status :: "exc + unit \<Rightarrow> nat" where
  "exit_status (Inr _) = 0"
| "exit_status (Inl (SystemExit n)) = n"
| "exit_status (Inl _) = 1"

subsection \<open>File-system primitives\<close>

text \<open>
  The proper prefixes of a path, shortest first, without the root; a path lies below a
  regular file when one of them is a regular file. The operating system then answers
  \<open>NotADirectoryError\<close> where it would otherwise say that the path does not exist.
\<close>

fun ancestors_from :: "path \<Rightarrow> string list \<Rightarrow> path list" where
  "ancestors_from pre [] = []"
| "ancestors_from pre [c] = []"
| "ancestors_from pre (c # c' # cs) = (pre @ [c]) # ancestors_from (pre @ [c]) (c' # cs)"

definition ancestors :: "path \<Rightarrow> path list" where
  "ancestors p = ancestors_from [] p"

definition below_file :: "path \<Rightarrow> world \<Rightarrow> bool" where
  "below_file p w = list_ex (\<lambda>q. q \<in> dom (files w)) (ancestors p)"

text \<open>\<^verbatim>\<open>os.chdir\<close>: the target must be an existing directory.\<close>

definition chdir :: "path \<Rightarrow> unit io" where
  "chdir d w =
     (if d \<in> dirs w then (Inr (), w\<lparr>cwd := d\<rparr>)
      else if d \<in> dom (files w) \<or> below_file d w then (Inl NotADirectoryError, w)
      else (Inl FileNotFoundError, w))"

text \<open>\<^verbatim>\<open>Path.exists\<close>; a path below a regular file does not exist.\<close>

definition exists :: "path \<Rightarrow> world \<Rightarrow> bool" where
  "exists p w = (p \<in> dirs w \<or> p \<in> dom (files w))"

text \<open>\<^verbatim>\<open>os.remove\<close>: removes a regular file and fails on anything else.\<close>

definition remove :: "path \<Rightarrow> unit io" where
  "remove p w =
     (if p \<in> dom (files w) then (Inr (), w\<lparr>files := (files w)(p := None)\<rparr>)
      else if p \<in> dirs w then (Inl IsADirectoryError, w)
      else if below_file p w then (Inl NotADirectoryError, w)
      else (Inl FileNotFoundError, w))"

text \<open>
  \<^verbatim>\<open>Path.mkdir(parents=True, exist_ok=True)\<close>: every missing ancestor and the
  directory itself are created; a regular file in the way is an error. The recursion
  runs over the prefixes of the path, shortest first.
\<close>

fun mkdir_from :: "path \<Rightarrow> string list \<Rightarrow> unit io" where
  "mkdir_from pre [] w = (Inr (), w)"
| "mkdir_from pre (c # cs) w =
     (let p = pre @ [c] in
      if p \<in> dom (files w) then (Inl (if cs = [] then FileExistsError else NotADirectoryError), w)
      else mkdir_from p cs (w\<lparr>dirs := insert p (dirs w)\<rparr>))"

definition mkdir_parents :: "path \<Rightarrow> unit io" where
  "mkdir_parents p = mkdir_from [] p"

text \<open>
  \<^verbatim>\<open>open(p, "w")\<close>: the parent must be a directory and \<open>p\<close> must not be one; the file
  is created or truncated at once, before anything is written to it.
\<close>

definition open_w :: "path \<Rightarrow> unit io" where
  "open_w p w =
     (if p \<in> dirs w then (Inl IsADirectoryError, w)
      else if below_file p w then (Inl NotADirectoryError, w)
      else if p \<noteq> [] \<and> butlast p \<noteq> [] \<and> butlast p \<notin> dirs w then (Inl FileNotFoundError, w)
      else (Inr (), w\<lparr>files := (files w)(p \<mapsto> Text [])\<rparr>))"

section \<open>base.py: the command abstraction\<close>

subsection \<open>The scoped working directory\<close>

text \<open>
  \<^verbatim>\<open>_BaseCommand.set_cwd\<close> is a generator-based context manager; \<open>set_cwd c body\<close> is
  \<^verbatim>\<open>with self.set_cwd(): body\<close>. The generator reads the current directory, changes
  to the override when there is one, and yields. After a normal end of the body it
  resumes after the \<^verbatim>\<open>yield\<close> and changes back. An exception of the body is thrown
  into the generator at the \<^verbatim>\<open>yield\<close>, which is not inside a \<^verbatim>\<open>try\<close>: the generator
  ends there and the exception goes on to the caller.
\<close>

definition set_cwd :: "path option \<Rightarrow> 'a io \<Rightarrow> 'a io" where
  "set_cwd override body w =
     (let old_cwd = cwd w in
      case (case override of None \<Rightarrow> (Inr (), w) | Some d \<Rightarrow> chdir d w) of
        (Inl e, w1) \<Rightarrow> (Inl e, w1)
      | (Inr _, w1) \<Rightarrow>
          (case body w1 of
             (Inl e, w2) \<Rightarrow> (Inl e, w2)
           | (Inr r, w2) \<Rightarrow>
               (case chdir old_cwd w2 of
                  (Inl e, w3) \<Rightarrow> (Inl e, w3)
                | (Inr _, w3) \<Rightarrow> (Inr r, w3))))"

subsection \<open>Invocation\<close>

text \<open>
  A command instance: its registered name, its working-directory override, the parser
  it builds (\<^verbatim>\<open>get_parser\<close>, \<^verbatim>\<open>add_arguments\<close> and \<^verbatim>\<open>parse_args\<close> together: a raw
  argument list gives the parsed arguments or the parser's own exit) and its
  \<^verbatim>\<open>handle\<close> method.
\<close>

record 'ns command =
  cname :: string
  ccwd :: "path option"
  parse_args :: "string list \<Rightarrow> exc + 'ns"
  handle :: "'ns \<Rightarrow> unit io"

text \<open>\<^verbatim>\<open>args or sys.argv[1:]\<close>; \<open>argv\<close> of the state is \<^verbatim>\<open>sys.argv[1:]\<close>.\<close>

fun effective_args :: "string list option \<Rightarrow> world \<Rightarrow> string list" where
  "effective_args None w = argv w"
| "effective_args (Some a) w = (if a = [] then argv w else a)"

text \<open>
  The handler of both \<^verbatim>\<open>__call__\<close> methods:
  \<^verbatim>\<open>except CommandError as err: print(err, file=sys.stderr); exit(1)\<close>.
\<close>

fun except_CommandError :: "(exc + unit) \<times> world \<Rightarrow> (exc + unit) \<times> world" where
  "except_CommandError (Inl (CommandError err), w) =
     (Inl (SystemExit 1), w\<lparr>stderr := stderr w @ [str_err err]\<rparr>)"
| "except_CommandError r = r"

text \<open>\<^verbatim>\<open>_BaseCommand.__call__\<close>: no argument, no handler.\<close>

definition BaseCommand_call :: "unit command \<Rightarrow> unit io" where
  "BaseCommand_call c = set_cwd (ccwd c) (handle c ())"

text \<open>\<^verbatim>\<open>Command.__call__\<close>: the arguments are parsed outside the \<^verbatim>\<open>try\<close>.\<close>

definition Command_call :: "'ns command \<Rightarrow> string list option \<Rightarrow> unit io" where
  "Command_call c args w =
     (case parse_args c (effective_args args w) of
        Inl e \<Rightarrow> (Inl e, w)
      | Inr arguments \<Rightarrow> except_CommandError (set_cwd (ccwd c) (handle c arguments) w))"

text \<open>\<^verbatim>\<open>CommandWithParser.__call__\<close>: the raw arguments go to \<^verbatim>\<open>handle\<close>.\<close>

definition CommandWithParser_call :: "string list command \<Rightarrow> string list option \<Rightarrow> unit io" where
  "CommandWithParser_call c args w =
     except_CommandError (set_cwd (ccwd c) (handle c (effective_args args w)) w)"

subsection \<open>Registration\<close>

text \<open>
  A command class, as far as registration goes: its \<^verbatim>\<open>name\<close>, whether \<^verbatim>\<open>handle\<close> is
  still abstract in it, whether it inherits \<^verbatim>\<open>Pytest.__init__\<close>, and its \<^verbatim>\<open>bypass\<close>
  attribute. The singleton instance of a class is identified with the class.
\<close>

record cmd_class =
  name :: string
  abstract :: bool
  is_pytest :: bool
  bypass :: bool

text \<open>The two module-level tables: \<^verbatim>\<open>base._COMMAND_REGISTER\<close> and \<^verbatim>\<open>tests._TEST_REGISTRY\<close>.\<close>

record registers =
  COMMAND_REGISTER :: "string \<rightharpoonup> cmd_class"
  TEST_REGISTRY :: "cmd_class list"

definition no_registers :: registers where
  "no_registers = \<lparr>COMMAND_REGISTER = Map.empty, TEST_REGISTRY = []\<rparr>"

text \<open>
  \<^verbatim>\<open>cls.as_command()\<close> is \<^verbatim>\<open>cls()\<close>, called from \<^verbatim>\<open>__init_subclass__\<close>, that is, while
  the class is being created. The abstract methods of a class are recorded only after
  its creation, so at this point the instantiation goes through whether or not
  \<^verbatim>\<open>handle\<close> is abstract: \<open>abstract\<close> plays no part. \<^verbatim>\<open>Pytest.__init__\<close> appends the new
  instance to the test registry unless the class sets \<^verbatim>\<open>bypass\<close>.
\<close>

definition as_command :: "cmd_class \<Rightarrow> registers \<Rightarrow> registers" where
  "as_command cls r =
     (if is_pytest cls \<and> \<not> bypass cls
        then r\<lparr>TEST_REGISTRY := TEST_REGISTRY r @ [cls]\<rparr>
      else r)"

text \<open>
  \<^verbatim>\<open>__init_subclass__\<close>: nothing for an empty name; otherwise the instance is made
  first and then stored under the name.
\<close>

definition init_subclass :: "cmd_class \<Rightarrow> registers \<Rightarrow> registers" where
  "init_subclass cls r =
     (if name cls = [] then r
      else (let r' = as_command cls r
            in r'\<lparr>COMMAND_REGISTER := (COMMAND_REGISTER r')(name cls \<mapsto> cls)\<rparr>))"

text \<open>Defining classes one after the other.\<close>

fun define_classes :: "cmd_class list \<Rightarrow> registers \<Rightarrow> registers" where
  "define_classes [] r = r"
| "define_classes (cls # rest) r = define_classes rest (init_subclass cls r)"

text \<open>The package's \<^verbatim>\<open>__getattr__\<close> and \<^verbatim>\<open>__dir__\<close> are look-ups in the command register.\<close>

definition resolve :: "registers \<Rightarrow> string \<Rightarrow> exc + cmd_class" where
  "resolve r n = (case COMMAND_REGISTER r n of None \<Rightarrow> Inl (KeyError n) | Some c \<Rightarrow> Inr c)"

text \<open>\<^verbatim>\<open>tests.get_all_tests\<close>.\<close>

definition get_all_tests :: "registers \<Rightarrow> cmd_class list" where
  "get_all_tests r = TEST_REGISTRY r"

text \<open>
  The state in which \<^verbatim>\<open>handle\<close> starts when the scoped change of directory went
  through, and the condition for it to go through.
\<close>

definition entered :: "path option \<Rightarrow> world \<Rightarrow> world" where
  "entered override w = (case override of None \<Rightarrow> w | Some d \<Rightarrow> w\<lparr>cwd := d\<rparr>)"

definition can_enter :: "path option \<Rightarrow> world \<Rightarrow> bool" where
  "can_enter override w = (case override of None \<Rightarrow> True | Some d \<Rightarrow> d \<in> dirs w)"

section \<open>__init__.py: discovery\<close>

text \<open>
  A directory listing: regular files, directories with their own listing, and entries
  that are neither (\<^verbatim>\<open>is_dir\<close> and \<^verbatim>\<open>is_file\<close> both false).
\<close>

datatype entry = File string | Dir string "entry list" | Special string

definition startswith :: "string \<Rightarrow> string \<Rightarrow> bool" where
  "startswith s pre = (take (length pre) s = pre)"

text \<open>\<^verbatim>\<open>str.rfind\<close> for one character: the index of its last occurrence.\<close>

definition rfind :: "string \<Rightarrow> char \<Rightarrow> nat option" where
  "rfind s c =
     (if c \<in> set s then Some (length s - 1 - length (takeWhile (\<lambda>x. x \<noteq> c) (rev s)))
      else None)"

text \<open>
  \<^verbatim>\<open>PurePath.suffix\<close>: the name from its last dot on, when that dot is neither the
  first nor the last character.
\<close>

definition suffix :: "string \<Rightarrow> string" where
  "suffix nm =
     (case rfind nm (CHR ''.'') of
        None \<Rightarrow> []
      | Some i \<Rightarrow> if 0 < i \<and> i < length nm - 1 then drop i nm else [])"

text \<open>
  \<^verbatim>\<open>_walk_files\<close>, for the directory at the relative path \<open>p\<close> with the given listing.
  A directory is always descended into, with \<^verbatim>\<open>exclude_current\<close> false; any other
  entry is yielded when the four conditions of the \<^verbatim>\<open>elif\<close> hold.
\<close>

fun walk_files :: "path \<Rightarrow> entry list \<Rightarrow> bool \<Rightarrow> path list" where
  "walk_files p [] exclude_current = []"
| "walk_files p (Dir n sub # es) exclude_current =
     walk_files (p @ [n]) sub False @ walk_files p es exclude_current"
| "walk_files p (File n # es) exclude_current =
     (if \<not> exclude_current \<and> \<not> startswith n ''_'' \<and> suffix n = ''.py''
      then [p @ [n]] else [])
     @ walk_files p es exclude_current"
| "walk_files p (Special n # es) exclude_current = walk_files p es exclude_current"

fun replace :: "string \<Rightarrow> char \<Rightarrow> char \<Rightarrow> string" where
  "replace s a b = map (\<lambda>c. if c = a then b else c) s"

fun str_path :: "path \<Rightarrow> string" where
  "str_path [] = ''.''"
| "str_path [c] = c"
| "str_path (c # cs) = c @ ''/'' @ str_path cs"

text \<open>
  \<^verbatim>\<open>_import_all_modules\<close>. For each file of the walk, which starts at the package
  directory with \<^verbatim>\<open>exclude_current\<close> true, the relative path is turned into text, its
  slashes are replaced by dots and its last three characters are dropped; the result,
  with a leading dot, is the module name handed to \<^verbatim>\<open>importlib.import_module\<close>.
\<close>

definition import_name :: "path \<Rightarrow> string" where
  "import_name rel =
     (let s = replace (str_path rel) (CHR ''/'') (CHR ''.'') in take (length s - 3) s)"

definition module_names :: "entry list \<Rightarrow> string list" where
  "module_names root = map (\<lambda>f. ''.'' @ import_name f) (walk_files [] root True)"





definition stem :: "string \<Rightarrow> string" where
  "stem nm = take (length nm - 3) nm"


definition plain :: "path \<Rightarrow> bool" where
  "plain f =
     ((\<forall>c\<in>set f. CHR ''/'' \<notin> set c)
      \<and> (\<forall>c\<in>set (butlast f). CHR ''.'' \<notin> set c)
      \<and> CHR ''.'' \<notin> set (stem (last f)))"

section \<open>ci/_base.py: the document builders\<close>

subsection \<open>Ordered mappings and paths\<close>

text \<open>
  \<^verbatim>\<open>d[k] = v\<close> on a mapping in insertion order: an existing key keeps its place, a new
  key goes to the end.
\<close>

fun setitem :: "odict \<Rightarrow> string \<Rightarrow> yaml \<Rightarrow> odict" where
  "setitem [] k v = [(k, v)]"
| "setitem ((k', v') # d) k v = (if k' = k then (k, v) # d else (k', v') # setitem d k v)"

definition keys :: "odict \<Rightarrow> string list" where
  "keys d = map fst d"

text \<open>
  \<^verbatim>\<open>joinpath\<close> with one string: the string is cut at its slashes, empty and \<^verbatim>\<open>.\<close>
  components are dropped, and a string that starts with a slash replaces the base.
\<close>

fun split_slash :: "string \<Rightarrow> string list" where
  "split_slash [] = [[]]"
| "split_slash (c # cs) =
     (if c = CHR ''/'' then [] # split_slash cs
      else (case split_slash cs of [] \<Rightarrow> [[c]] | x # xs \<Rightarrow> (c # x) # xs))"

definition parts :: "string \<Rightarrow> string list" where
  "parts s = filter (\<lambda>c. c \<noteq> [] \<and> c \<noteq> ''.'') (split_slash s)"

definition joinpath :: "path \<Rightarrow> string \<Rightarrow> path" where
  "joinpath b seg = (if startswith seg ''/'' then parts seg else b @ parts seg)"

text \<open>
  The two base directories hang below the parent of \<^verbatim>\<open>base.PROJECT_ROOT\<close>, the
  directory that holds the \<^verbatim>\<open>scripts\<close> package; \<open>pr\<close> stands for it throughout.
\<close>

definition BASE_WORKFLOW_DIR :: "path \<Rightarrow> path" where
  "BASE_WORKFLOW_DIR pr = butlast pr @ [''.github'', ''workflows'']"

definition BASE_ACTION_DIR :: "path \<Rightarrow> path" where
  "BASE_ACTION_DIR pr = butlast pr @ [''.github'', ''actions'']"

subsection \<open>The string representer\<close>

text \<open>
  What \<^verbatim>\<open>represent_scalar\<close> is asked for: tag, value and the requested style (none
  leaves the choice to the emitter).
\<close>

record scalar_node =
  tag :: string
  node_value :: string
  style :: "char option"

definition multiline_str_representer :: "string \<Rightarrow> scalar_node" where
  "multiline_str_representer data =
     (if CHR 0x0A \<in> set data
      then \<lparr>tag = ''tag:yaml.org,2002:str'', node_value = data, style = Some (CHR ''|'')\<rparr>
      else \<lparr>tag = ''tag:yaml.org,2002:str'', node_value = data, style = None\<rparr>)"

subsection \<open>Sub-commands\<close>

text \<open>
  \<^verbatim>\<open>add_arguments\<close> of both builders registers the sub-parsers \<^verbatim>\<open>delete\<close> and
  \<^verbatim>\<open>create\<close>, in this order, without making a sub-command mandatory; each sets
  \<^verbatim>\<open>func\<close> to the bound method. A sub-parser is modelled by what it makes of the rest
  of the command line: the call \<^verbatim>\<open>func(**kwargs)\<close> that \<^verbatim>\<open>handle\<close> will make, or the
  exit of the argument parser (status 0 after printing help, status 2 on an error).
  The parsed namespace is then \<open>None\<close> when no sub-command was given (no \<^verbatim>\<open>func\<close>), and
  that call otherwise.
\<close>

type_synonym subparser = "string list \<Rightarrow> exc + unit io"

definition is_help :: "string \<Rightarrow> bool" where
  "is_help a = (a = ''-h'' \<or> a = ''--help'')"

text \<open>A parser without arguments of its own.\<close>

definition no_arguments :: "string list \<Rightarrow> exc + unit" where
  "no_arguments rest =
     (case rest of [] \<Rightarrow> Inr () | a # _ \<Rightarrow> Inl (SystemExit (if is_help a then 0 else 2)))"

fun parse_subcommand :: "(string \<times> subparser) list \<Rightarrow> string list \<Rightarrow> exc + unit io option" where
  "parse_subcommand subparsers [] = Inr None"
| "parse_subcommand subparsers (a # rest) =
     (case map_of subparsers a of
        None \<Rightarrow> Inl (SystemExit (if is_help a then 0 else 2))
      | Some sub \<Rightarrow> (case sub rest of Inl e \<Rightarrow> Inl e | Inr f \<Rightarrow> Inr (Some f)))"

text \<open>
  \<open>delete\<close> and \<open>create\<close> are the bound methods of the instance (a subclass may
  override them); \<open>create_arguments\<close> parses what a subclass added to the \<^verbatim>\<open>create\<close>
  sub-parser, which is the parser \<^verbatim>\<open>add_arguments\<close> returns.
\<close>

definition add_arguments ::
  "unit io \<Rightarrow> ('kw \<Rightarrow> unit io) \<Rightarrow> (string list \<Rightarrow> exc + 'kw) \<Rightarrow> (string \<times> subparser) list" where
  "add_arguments delete create create_arguments =
     [(''delete'', \<lambda>rest. case no_arguments rest of Inl e \<Rightarrow> Inl e | Inr _ \<Rightarrow> Inr delete),
      (''create'', \<lambda>rest. case create_arguments rest of Inl e \<Rightarrow> Inl e | Inr kw \<Rightarrow> Inr (create kw))]"

subsection \<open>Workflow\<close>

text \<open>
  A pipeline builder: its class attributes and its three hooks. The permission and
  trigger hooks return mappings; the job hook may read the terminal and may raise.
\<close>

record 'kw workflow =
  workflow_name :: string
  workflow_id :: string
  workflow_cwd :: "path option"
  get_permissions :: odict
  get_triggers :: "'kw \<Rightarrow> odict"
  get_jobs :: "'kw \<Rightarrow> odict io"

text \<open>The defaults of the three hooks in \<^verbatim>\<open>Workflow\<close>.\<close>

definition Workflow_get_jobs :: "'kw \<Rightarrow> odict io" where
  "Workflow_get_jobs kw w = (Inl NotImplementedError, w)"

definition Workflow_get_triggers :: "'kw \<Rightarrow> odict" where
  "Workflow_get_triggers kw =
     [(''push'', Map [(''branches'', Seq [Str ''main''])]),
      (''pull_request'', Map [(''branches'', Seq [Str ''main''])])]"

definition Workflow_get_permissions :: odict where
  "Workflow_get_permissions = []"

definition get_workflow_definition :: "'kw workflow \<Rightarrow> 'kw \<Rightarrow> odict io" where
  "get_workflow_definition flow kw w =
     (let workflow = [];
          workflow = setitem workflow ''name'' (Str (workflow_name flow));
          workflow = setitem workflow ''run-name'' (Str (workflow_id flow));
          permissions = get_permissions flow;
          workflow = (if permissions \<noteq> [] then setitem workflow ''permissions'' (Map permissions)
                      else workflow);
          workflow = setitem workflow ''on'' (Map (get_triggers flow kw))
      in case get_jobs flow kw w of
           (Inl e, w') \<Rightarrow> (Inl e, w')
         | (Inr jobs, w') \<Rightarrow> (Inr (setitem workflow ''jobs'' (Map jobs)), w'))"

definition workflow_path :: "path \<Rightarrow> 'kw workflow \<Rightarrow> path" where
  "workflow_path pr flow = joinpath (BASE_WORKFLOW_DIR pr) (workflow_id flow @ ''.yml'')"

text \<open>
  \<^verbatim>\<open>Workflow.create\<close>: the file is opened for writing before the document is built,
  since the call that builds it is an argument of \<^verbatim>\<open>yaml.dump\<close> inside the \<^verbatim>\<open>with\<close>
  block; an exception of the hooks leaves the file as \<^verbatim>\<open>open\<close> made it.
\<close>

definition Workflow_create :: "path \<Rightarrow> 'kw workflow \<Rightarrow> 'kw \<Rightarrow> unit io" where
  "Workflow_create pr flow kw w =
     (case mkdir_parents (butlast (workflow_path pr flow)) w of
        (Inl e, w1) \<Rightarrow> (Inl e, w1)
      | (Inr _, w1) \<Rightarrow>
          (case open_w (workflow_path pr flow) w1 of
             (Inl e, w2) \<Rightarrow> (Inl e, w2)
           | (Inr _, w2) \<Rightarrow>
               (case get_workflow_definition flow kw w2 of
                  (Inl e, w3) \<Rightarrow> (Inl e, w3)
                | (Inr d, w3) \<Rightarrow>
                    (Inr (), w3\<lparr>files := (files w3)(workflow_path pr flow \<mapsto> Dumped (Map d))\<rparr>))))"

definition Workflow_delete :: "path \<Rightarrow> 'kw workflow \<Rightarrow> unit io" where
  "Workflow_delete pr flow w =
     (if exists (workflow_path pr flow) w then remove (workflow_path pr flow) w else (Inr (), w))"

definition Workflow_handle :: "unit io option \<Rightarrow> unit io" where
  "Workflow_handle func w =
     (case func of
        None \<Rightarrow> (Inl (CommandError (Some ''No command provided. Use `add` or `delete` command.'')), w)
      | Some f \<Rightarrow> f w)"

text \<open>A pipeline builder as a command; \<open>create\<close> is the instance's \<^verbatim>\<open>create\<close> method.\<close>

definition Workflow_command ::
  "string \<Rightarrow> path \<Rightarrow> 'kw workflow \<Rightarrow> ('kw \<Rightarrow> unit io) \<Rightarrow> (string list \<Rightarrow> exc + 'kw)
     \<Rightarrow> unit io option command" where
  "Workflow_command nm pr flow create create_arguments =
     \<lparr>cname = nm, ccwd = workflow_cwd flow,
      parse_args = parse_subcommand (add_arguments (Workflow_delete pr flow) create create_arguments),
      handle = Workflow_handle\<rparr>"

subsection \<open>Action\<close>

record action =
  action_name :: string
  action_id :: string
  description :: string
  runs_using :: string
  action_cwd :: "path option"
  get_steps :: "yaml list"

definition get_action_definition :: "action \<Rightarrow> odict" where
  "get_action_definition a =
     [(''name'', Str (action_name a)),
      (''description'', Str (description a)),
      (''runs'', Map [(''using'', Str (runs_using a)), (''steps'', Seq (get_steps a))])]"

definition action_path :: "path \<Rightarrow> action \<Rightarrow> path" where
  "action_path pr a = joinpath (BASE_ACTION_DIR pr) (action_id a)"

definition Action_create :: "path \<Rightarrow> action \<Rightarrow> unit io" where
  "Action_create pr a w =
     (case mkdir_parents (action_path pr a) w of
        (Inl e, w1) \<Rightarrow> (Inl e, w1)
      | (Inr _, w1) \<Rightarrow>
          (case open_w (action_path pr a @ [''action.yml'']) w1 of
             (Inl e, w2) \<Rightarrow> (Inl e, w2)
           | (Inr _, w2) \<Rightarrow>
               (Inr (), w2\<lparr>files := (files w2)(action_path pr a @ [''action.yml'']
                                        \<mapsto> Dumped (Map (get_action_definition a)))\<rparr>)))"

definition Action_delete :: "path \<Rightarrow> action \<Rightarrow> unit io" where
  "Action_delete pr a = remove (action_path pr a @ [''action.yml''])"

definition Action_handle :: "unit io option \<Rightarrow> unit io" where
  "Action_handle func w =
     (case func of
        None \<Rightarrow> (Inl (CommandError (Some ''No command provided. Use `add` or `delete` command.'')), w)
      | Some f \<Rightarrow> f w)"

definition Action_command :: "string \<Rightarrow> path \<Rightarrow> action \<Rightarrow> unit io option command" where
  "Action_command nm pr a =
     \<lparr>cname = nm, ccwd = action_cwd a,
      parse_args = parse_subcommand
        (add_arguments (Action_delete pr a) (\<lambda>_. Action_create pr a) no_arguments),
      handle = Action_handle\<rparr>"

section \<open>ci/python_tests.py: the test-pipeline generator\<close>

subsection \<open>The build action\<close>

definition join :: "string \<Rightarrow> string list \<Rightarrow> string" where
  "join sep xs = (case xs of [] \<Rightarrow> [] | x # rest \<Rightarrow> foldl (\<lambda>acc y. acc @ sep @ y) x rest)"

definition newline :: string where
  "newline = [CHR 0x0A]"

definition PythonBuildAction :: action where
  "PythonBuildAction =
     \<lparr>action_name = ''Build python application.'',
      action_id = ''build'',
      description = [],
      runs_using = ''composite'',
      action_cwd = None,
      get_steps =
        [Map [(''name'', Str ''Install git''),
              (''shell'', Str ''bash''),
              (''run'', Str ''apt update && apt install git -y'')],
         Map [(''name'', Str ''Checkout''),
              (''uses'', Str ''actions/checkout@v4'')],
         Map [(''name'', Str ''Install dependencies''),
              (''shell'', Str ''bash''),
              (''run'', Str (join newline
                 [''pip install -r requirements.txt'',
                  ''poetry install --with=dev'']))]]\<rparr>"

text \<open>The document file of the build action.\<close>

definition build_file :: "path \<Rightarrow> path" where
  "build_file pr = action_path pr PythonBuildAction @ [''action.yml'']"

subsection \<open>Prompts\<close>

text \<open>\<^verbatim>\<open>str.lower\<close>, on the letters of ASCII.\<close>

definition lower_char :: "char \<Rightarrow> char" where
  "lower_char c =
     (case map_of (zip ''ABCDEFGHIJKLMNOPQRSTUVWXYZ'' ''abcdefghijklmnopqrstuvwxyz'') c of
        None \<Rightarrow> c
      | Some l \<Rightarrow> l)"

definition lower :: "string \<Rightarrow> string" where
  "lower s = map lower_char s"

text \<open>
  The loop of \<^verbatim>\<open>prompt_bool\<close>: lines are read until one is, in lower case, one of the
  five accepted answers; \<^verbatim>\<open>input\<close> raises \<open>EOFError\<close> when no line is left.
\<close>

fun read_choice :: "string list \<Rightarrow> string option \<times> string list" where
  "read_choice [] = (None, [])"
| "read_choice (l # ls) =
     (let choice = lower l in
      if choice \<in> set [''y'', ''yes'', ''n'', ''no'', []] then (Some choice, ls)
      else read_choice ls)"

definition prompt_bool :: "string \<Rightarrow> bool \<Rightarrow> bool io" where
  "prompt_bool message dflt w =
     (case read_choice (stdin w) of
        (None, rest) \<Rightarrow> (Inl EOFError, w\<lparr>stdin := rest\<rparr>)
      | (Some choice, rest) \<Rightarrow>
          (Inr (if choice = [] then dflt else choice \<in> set [''y'', ''yes'']),
           w\<lparr>stdin := rest\<rparr>))"

subsection \<open>Keyword arguments and selection\<close>

text \<open>
  The keyword arguments that the \<^verbatim>\<open>create\<close> sub-parser of the generator produces and
  that \<^verbatim>\<open>create\<close> passes down to every stage of \<^verbatim>\<open>get_jobs\<close>.
\<close>

record test_kwargs =
  tests :: "string list option"
  required :: "string list option"
  coverage_fail_under :: "int option"
  coverage_fail_regressed :: "bool option"

text \<open>
  Every optional job is chosen by the same four lines: without a test list (absent or
  empty) the user is asked, with default yes; with one, the job is chosen when the list
  holds its name or \<^verbatim>\<open>ALL\<close>.
\<close>

definition selected :: "string \<Rightarrow> string \<Rightarrow> string list option \<Rightarrow> bool io" where
  "selected message nm tsts w =
     (case tsts of
        None \<Rightarrow> prompt_bool message True w
      | Some ts \<Rightarrow>
          if ts = [] then prompt_bool message True w
          else (Inr (nm \<in> set ts \<or> ''ALL'' \<in> set ts), w))"

subsection \<open>Steps and jobs\<close>

definition get_checkout :: yaml where
  "get_checkout = Map [(''name'', Str ''Checkout''), (''uses'', Str ''actions/checkout@v4'')]"

definition get_build :: yaml where
  "get_build = Map [(''name'', Str ''Build''), (''uses'', Str ''./.github/actions/build'')]"

definition get_file_changed :: yaml where
  "get_file_changed =
     Map [(''name'', Str ''File changed''),
          (''id'', Str ''file-changed''),
          (''uses'', Str ''tj-actions/changed-files@v44''),
          (''with'', Map [(''files'', Str ''**/*.py'')])]"

definition ruff_job :: yaml where
  "ruff_job =
     Map [(''name'', Str ''Python linter: ruff''),
          (''runs-on'', Str ''ubuntu-latest''),
          (''container'', Str ''python:3.12-slim-bookworm''),
          (''if'', Str ''${{ github.event_name == 'pull_request' }}''),
          (''steps'', Seq
             [get_checkout, get_build, get_file_changed,
              Map [(''name'', Str ''Run ruff''),
                   (''id'', Str ''run-ruff''),
                   (''if'', Str ''${{ steps.file-changed.outputs.any_changed == 'true' }}''),
                   (''run'', Str (''poetry run python-ruff ''
                      @ ''${{ steps.file-changed.outputs.all_changed_files }}''))]])]"

definition lock_job :: yaml where
  "lock_job =
     Map [(''name'', Str ''Python linter: poetry lock check''),
          (''runs-on'', Str ''ubuntu-latest''),
          (''container'', Str ''python:3.12-slim-bookworm''),
          (''if'', Str ''${{ github.event_name == 'pull_request' }}''),
          (''steps'', Seq
             [get_checkout, get_build,
              Map [(''name'', Str ''Run poetry lock check''),
                   (''id'', Str ''run-lock''),
                   (''run'', Str ''poetry lock --check'')]])]"

definition mypy_job :: yaml where
  "mypy_job =
     Map [(''name'', Str ''Python linter: mypy''),
          (''runs-on'', Str ''ubuntu-latest''),
          (''container'', Str ''python:3.12-slim-bookworm''),
          (''if'', Str ''${{ github.event_name == 'pull_request' }}''),
          (''steps'', Seq
             [get_checkout, get_build, get_file_changed,
              Map [(''name'', Str ''Run mypy''),
                   (''id'', Str ''run-mypy''),
                   (''run'', Str (''poetry run python-type-check ''
                      @ ''${{ steps.file-changed.outputs.all_changed_files }}''))]])]"

definition importlinter_job :: yaml where
  "importlinter_job =
     Map [(''name'', Str ''Python linter: import linter''),
          (''runs-on'', Str ''ubuntu-latest''),
          (''container'', Str ''python:3.12-slim-bookworm''),
          (''if'', Str ''${{ github.event_name == 'pull_request' }}''),
          (''steps'', Seq
             [get_checkout, get_build, get_file_changed,
              Map [(''name'', Str ''Run import linter''),
                   (''id'', Str ''run-importlinter''),
                   (''run'', Str ''poetry run python-check-imports'')]])]"

definition pytest_job :: yaml where
  "pytest_job =
     Map [(''name'', Str ''Python test''),
          (''runs-on'', Str ''ubuntu-latest''),
          (''container'', Str ''python:3.12-slim-bookworm''),
          (''steps'', Seq
             [get_checkout, get_build,
              Map [(''name'', Str ''Run pytest''),
                   (''id'', Str ''run-pytest''),
                   (''run'', Str ''poetry run python-tests'')]])]"

text \<open>The job of one registered test suite, by the suite's name.\<close>

definition suite_job :: "string \<Rightarrow> yaml" where
  "suite_job nm =
     Map [(''name'', Str (''Python test: '' @ nm)),
          (''runs-on'', Str ''ubuntu-latest''),
          (''container'', Str ''python:3.12-slim-bookworm''),
          (''steps'', Seq
             [get_checkout, get_build,
              Map [(''name'', Str (''Run '' @ nm)),
                   (''id'', Str (''run-'' @ replace nm (CHR ''_'') (CHR ''-''))),
                   (''run'', Str (''poetry run python-test-suite '' @ nm))]])]"

definition coverage_job :: "string \<Rightarrow> yaml" where
  "coverage_job fail_under_param =
     Map [(''name'', Str ''Python test: coverage''),
          (''runs-on'', Str ''ubuntu-latest''),
          (''container'', Str ''python:3.12-slim-bookworm''),
          (''steps'', Seq
             [get_checkout, get_build,
              Map [(''name'', Str ''Run coverage''),
                   (''id'', Str ''run-coverage''),
                   (''run'', Str (''poetry run python-coverage '' @ fail_under_param))],
              Map [(''name'', Str ''Upload coverage''),
                   (''id'', Str ''upload-coverage''),
                   (''uses'', Str ''codecov/codecov-action@v4''),
                   (''with'', Map [(''files'', Str ''coverage/report.xml''),
                                   (''fail_ci_if_error'', Str ''true''),
                                   (''verbose'', Str ''true'')])]])]"

definition tests_passed_job :: "string list \<Rightarrow> yaml" where
  \<open>tests_passed_job all_required =
     Map [(''name'', Str ''Python test: OK''),
          (''runs-on'', Str ''ubuntu-latest''),
          (''container'', Str ''python:3.12-slim-bookworm''),
          (''if'', Str ''${{ always() }}''),
          (''needs'', Seq (map Str all_required)),
          (''env'', Map [(''RESULTS'', Str (join newline
             (map (\<lambda>need. ''${{ needs.'' @ need @ ''.result =='success' }}'') all_required)))]),
          (''steps'', Seq
             [Map [(''id'', Str ''test-results''),
                   (''name'', Str ''Test results''),
                   (''run'', Str (join newline
                      [''echo ${{ RESULTS }}'',
                       ''for r in $RESULTS'',
                       ''do'',
                       ''    if [ $r = "success" ] || [ $r = "skipped" ];'',
                       ''    then'',
                       ''        true'',
                       ''    else'',
                       ''        echo "Some tests failed"'',
                       ''        exit 1'',
                       ''    fi'',
                       ''done'',
                       ''echo "All tests passed"'']))]])]\<close>

text \<open>Decimal notation of an integer, as an f-string renders it.\<close>

fun str_nat :: "nat \<Rightarrow> string" where
  "str_nat n = (if n < 10 then [''0123456789'' ! n] else str_nat (n div 10) @ [''0123456789'' ! (n mod 10)])"

definition str_int :: "int \<Rightarrow> string" where
  "str_int i = (if i < 0 then ''-'' @ str_nat (nat (- i)) else str_nat (nat i))"

subsection \<open>Assembling the job graph\<close>

definition get_linters :: "odict \<Rightarrow> string list option \<Rightarrow> odict io" where
  "get_linters jobs tsts w =
     (case selected ''Do you want to run ruff?'' ''ruff'' tsts w of
        (Inl e, w1) \<Rightarrow> (Inl e, w1)
      | (Inr ruff, w1) \<Rightarrow>
          (let jobs = (if ruff then setitem jobs ''ruff'' ruff_job else jobs) in
           case selected ''Do you want to run poetry lock check?'' ''lock'' tsts w1 of
             (Inl e, w2) \<Rightarrow> (Inl e, w2)
           | (Inr lock, w2) \<Rightarrow>
               (Inr (if lock then setitem jobs ''lock'' lock_job else jobs), w2)))"

definition get_static_tests :: "odict \<Rightarrow> string list option \<Rightarrow> odict io" where
  "get_static_tests jobs tsts w =
     (case selected ''Do you want to run mypy?'' ''mypy'' tsts w of
        (Inl e, w1) \<Rightarrow> (Inl e, w1)
      | (Inr mypy, w1) \<Rightarrow>
          (let jobs = (if mypy then setitem jobs ''mypy'' mypy_job else jobs) in
           case selected ''Do you want to run import linter?'' ''importlinter'' tsts w1 of
             (Inl e, w2) \<Rightarrow> (Inl e, w2)
           | (Inr importlinter, w2) \<Rightarrow>
               (Inr (if importlinter then setitem jobs ''importlinter'' importlinter_job
                     else jobs), w2)))"

text \<open>
  The loop of \<^verbatim>\<open>get_tests\<close> over the registered suites: a suite that is not chosen is
  skipped, a chosen one is entered under its own name.
\<close>

fun get_tests_loop :: "odict \<Rightarrow> cmd_class list \<Rightarrow> string list option \<Rightarrow> odict io" where
  "get_tests_loop jobs [] tsts w = (Inr jobs, w)"
| "get_tests_loop jobs (test # rest) tsts w =
     (case selected (''Do you want to run '' @ name test @ ''?'') (name test) tsts w of
        (Inl e, w1) \<Rightarrow> (Inl e, w1)
      | (Inr test_run, w1) \<Rightarrow>
          if \<not> test_run then get_tests_loop jobs rest tsts w1
          else get_tests_loop (setitem jobs (name test) (suite_job (name test))) rest tsts w1)"

text \<open>
  \<^verbatim>\<open>get_tests\<close>: with an empty suite registry the answer \<^verbatim>\<open>test_run\<close> is computed and
  not looked at, so the \<^verbatim>\<open>pytest\<close> job is entered whatever it is.
\<close>

definition get_tests :: "cmd_class list \<Rightarrow> odict \<Rightarrow> string list option \<Rightarrow> odict io" where
  "get_tests all_tests jobs tsts w =
     (if all_tests = [] then
        (case selected ''Do you want to run pytest?'' ''pytest'' tsts w of
           (Inl e, w1) \<Rightarrow> (Inl e, w1)
         | (Inr test_run, w1) \<Rightarrow> (Inr (setitem jobs ''pytest'' pytest_job), w1))
      else get_tests_loop jobs all_tests tsts w)"

definition get_coverage ::
  "odict \<Rightarrow> string list option \<Rightarrow> int option \<Rightarrow> bool option \<Rightarrow> odict io" where
  "get_coverage jobs tsts fail_under fail_regressed w =
     (case selected ''Do you want to run coverage?'' ''coverage'' tsts w of
        (Inl e, w1) \<Rightarrow> (Inl e, w1)
      | (Inr coverage, w1) \<Rightarrow>
          if coverage then
            (if fail_regressed = Some True then (Inl NotImplementedError, w1)
             else
               (let fail_under_param =
                      (case fail_under of
                         None \<Rightarrow> []
                       | Some n \<Rightarrow> if n \<noteq> 0 then ''--fail-under='' @ str_int n else [])
                in (Inr (setitem jobs ''coverage'' (coverage_job fail_under_param)), w1)))
          else (Inr jobs, w1))"

text \<open>
  The loop of \<^verbatim>\<open>get_tests_passed\<close> over the names of the jobs entered so far: without
  a \<^verbatim>\<open>required\<close> list (absent, not merely empty) the user is asked for each job.
\<close>

fun collect_required ::
  "string list \<Rightarrow> string list option \<Rightarrow> string list \<Rightarrow> string list io" where
  "collect_required [] req all_required w = (Inr all_required, w)"
| "collect_required (nm # rest) req all_required w =
     (case (case req of
              None \<Rightarrow> prompt_bool (''Is '' @ nm @ '' required for the CI?'') True w
            | Some rq \<Rightarrow> (Inr (nm \<in> set rq \<or> ''ALL'' \<in> set rq), w)) of
        (Inl e, w1) \<Rightarrow> (Inl e, w1)
      | (Inr test_required, w1) \<Rightarrow>
          collect_required rest req
            (if test_required then all_required @ [nm] else all_required) w1)"

definition get_tests_passed :: "odict \<Rightarrow> string list option \<Rightarrow> odict io" where
  "get_tests_passed jobs req w =
     (case collect_required (keys jobs) req [] w of
        (Inl e, w1) \<Rightarrow> (Inl e, w1)
      | (Inr all_required, w1) \<Rightarrow>
          if all_required = [] then (Inr jobs, w1)
          else (Inr (setitem jobs ''python-tests-passed'' (tests_passed_job all_required)), w1))"

text \<open>\<^verbatim>\<open>GitHubPythonTest.get_jobs\<close>; \<open>all_tests\<close> is what \<^verbatim>\<open>get_all_tests\<close> returns.\<close>

definition GitHubPythonTest_get_jobs :: "cmd_class list \<Rightarrow> test_kwargs \<Rightarrow> odict io" where
  "GitHubPythonTest_get_jobs all_tests kw w =
     (case get_linters [] (tests kw) w of
        (Inl e, w1) \<Rightarrow> (Inl e, w1)
      | (Inr jobs, w1) \<Rightarrow>
     (case get_static_tests jobs (tests kw) w1 of
        (Inl e, w2) \<Rightarrow> (Inl e, w2)
      | (Inr jobs, w2) \<Rightarrow>
     (case get_tests all_tests jobs (tests kw) w2 of
        (Inl e, w3) \<Rightarrow> (Inl e, w3)
      | (Inr jobs, w3) \<Rightarrow>
     (case get_coverage jobs (tests kw) (coverage_fail_under kw) (coverage_fail_regressed kw) w3 of
        (Inl e, w4) \<Rightarrow> (Inl e, w4)
      | (Inr jobs, w4) \<Rightarrow> get_tests_passed jobs (required kw) w4))))"

definition GitHubPythonTest :: "cmd_class list \<Rightarrow> test_kwargs workflow" where
  "GitHubPythonTest all_tests =
     \<lparr>workflow_name = ''Python Tests'',
      workflow_id = ''python-test'',
      workflow_cwd = None,
      get_permissions = Workflow_get_permissions,
      get_triggers = Workflow_get_triggers,
      get_jobs = GitHubPythonTest_get_jobs all_tests\<rparr>"

text \<open>
  \<^verbatim>\<open>GitHubPythonTest.create\<close>: the pipeline document first, then the build action
  through its own command, invoked with the argument list \<^verbatim>\<open>["create"]\<close>.
\<close>

definition GitHubPythonTest_create :: "path \<Rightarrow> cmd_class list \<Rightarrow> test_kwargs \<Rightarrow> unit io" where
  "GitHubPythonTest_create pr all_tests kw w =
     (case Workflow_create pr (GitHubPythonTest all_tests) kw w of
        (Inl e, w1) \<Rightarrow> (Inl e, w1)
      | (Inr _, w1) \<Rightarrow>
          Command_call (Action_command ''github_python_build'' pr PythonBuildAction)
            (Some [''create'']) w1)"

text \<open>The generator as a command.\<close>

definition GitHubPythonTest_command ::
  "path \<Rightarrow> cmd_class list \<Rightarrow> (string list \<Rightarrow> exc + test_kwargs) \<Rightarrow> unit io option command" where
  "GitHubPythonTest_command pr all_tests create_arguments =
     Workflow_command ''github_python_test'' pr (GitHubPythonTest all_tests)
       (GitHubPythonTest_create pr all_tests) create_arguments"

subsection \<open>python/tests.py: the classes that fill the suite registry\<close>

definition python_tests_classes :: "cmd_class list" where
  "python_tests_classes =
     [\<lparr>name = ''pytest'', abstract = False, is_pytest = True, bypass = False\<rparr>,
      \<lparr>name = ''test_suite'', abstract = False, is_pytest = False, bypass = True\<rparr>,
      \<lparr>name = ''all_tests'', abstract = False, is_pytest = True, bypass = True\<rparr>,
      \<lparr>name = ''coverage'', abstract = False, is_pytest = False, bypass = True\<rparr>,
      \<lparr>name = ''mypy'', abstract = False, is_pytest = False, bypass = False\<rparr>,
      \<lparr>name = ''import_linter'', abstract = False, is_pytest = False, bypass = False\<rparr>]"

text \<open>
  For the statements about the gate job: its key, the dependency list of a job, and
  what marks a job as required when a \<^verbatim>\<open>required\<close> list is given.
\<close>

definition marked :: "string list \<Rightarrow> string \<Rightarrow> bool" where
  "marked rq nm = (nm \<in> set rq \<or> ''ALL'' \<in> set rq)"

definition gate :: string where
  "gate = ''python-tests-passed''"

definition needs :: "yaml \<Rightarrow> yaml option" where
  "needs job = (case job of Map kv \<Rightarrow> map_of kv ''needs'' | _ \<Rightarrow> None)"

text \<open>An answer that \<^verbatim>\<open>prompt_bool\<close> reads as no.\<close>

definition says_no :: "string \<Rightarrow> bool" where
  "says_no l = (lower l = ''n'' \<or> lower l = ''no'')"

text \<open>A step that changes nothing of the state but the pending input.\<close>

definition reads_only :: "world \<Rightarrow> world \<Rightarrow> bool" where
  "reads_only w w' =
     (cwd w' = cwd w \<and> dirs w' = dirs w \<and> files w' = files w \<and> argv w' = argv w
      \<and> stderr w' = stderr w)"

section \<open>Concrete inputs\<close>

definition repo :: path where
  "repo = [''home'', ''repo'']"

definition world0 :: world where
  "world0 = \<lparr>cwd = repo, dirs = {repo, repo @ [''src'']}, files = Map.empty,
             argv = [], stdin = [], stderr = []\<rparr>"

text \<open>
  Three classes as a module might define them: two under one name, the later of them
  without a \<^verbatim>\<open>handle\<close> of its own, and one without a name.
\<close>

definition cls_first :: cmd_class where
  "cls_first = \<lparr>name = ''ruff'', abstract = False, is_pytest = False, bypass = False\<rparr>"

definition cls_second :: cmd_class where
  "cls_second = \<lparr>name = ''ruff'', abstract = True, is_pytest = False, bypass = False\<rparr>"

definition cls_unnamed :: cmd_class where
  "cls_unnamed = \<lparr>name = [], abstract = False, is_pytest = False, bypass = False\<rparr>"

text \<open>
  Commands with a directory override, in the manner of the coverage command
  (\<^verbatim>\<open>cwd = base.PROJECT_ROOT\<close>), whose \<^verbatim>\<open>handle\<close> ends the given way: one with a
  declarative parser that accepts everything, one that takes the raw arguments.
\<close>

definition parsed_command :: "exc + unit \<Rightarrow> unit command" where
  "parsed_command outcome =
     \<lparr>cname = ''coverage'', ccwd = Some (repo @ [''src'']),
      parse_args = (\<lambda>args. Inr ()),
      handle = (\<lambda>_ w. (outcome, w))\<rparr>"

definition raw_command :: "exc + unit \<Rightarrow> string list command" where
  "raw_command outcome =
     \<lparr>cname = ''mypy'', ccwd = Some (repo @ [''src'']),
      parse_args = (\<lambda>args. Inr args),
      handle = (\<lambda>_ w. (outcome, w))\<rparr>"

text \<open>The package directory of this repository.\<close>

definition scripts_tree :: "entry list" where
  "scripts_tree =
     [File ''__init__.py'', File ''base.py'',
      Dir ''ci'' [File ''_base.py'', File ''approval_bot.py'', File ''python_tests.py''],
      Dir ''python'' [File ''linters.py'', File ''tests.py'']]"

text \<open>
  A pipeline builder whose three hooks return empty mappings, the directory of the
  \<^verbatim>\<open>scripts\<close> package, the class \<^verbatim>\<open>Pytest\<close> and the keyword arguments of the scenario.
\<close>

definition bare_workflow :: "unit workflow" where
  "bare_workflow =
     \<lparr>workflow_name = ''Bare'', workflow_id = ''bare'', workflow_cwd = None,
      get_permissions = [], get_triggers = (\<lambda>_. []), get_jobs = (\<lambda>_ w. (Inr [], w))\<rparr>"

definition src :: path where
  "src = repo @ [''src'']"

definition Pytest :: cmd_class where
  "Pytest = \<lparr>name = ''pytest'', abstract = False, is_pytest = True, bypass = False\<rparr>"

definition scenario :: test_kwargs where
  "scenario = \<lparr>tests = Some [''ruff''], required = Some [''ruff''],
     coverage_fail_under = Some 80, coverage_fail_regressed = Some False\<rparr>"

text \<open>
  Keyword arguments that select coverage with the regression flag, a parser of the
  \<^verbatim>\<open>create\<close> sub-command that produces them, the path of the generator's document,
  the document of the scenario and the state once it has been written.
\<close>

definition regressed :: test_kwargs where
  "regressed = \<lparr>tests = Some [''coverage''], required = None,
     coverage_fail_under = Some 0, coverage_fail_regressed = Some True\<rparr>"

text \<open>
  Keyword arguments without a test list, so that every job is asked for, and the state
  with the given answers waiting on standard input.
\<close>

definition asked :: test_kwargs where
  "asked = \<lparr>tests = None, required = None,
     coverage_fail_under = Some 0, coverage_fail_regressed = Some True\<rparr>"

definition world_asked :: "string list \<Rightarrow> world" where
  "world_asked answers = world0\<lparr>stdin := answers\<rparr>"

definition python_test_path :: path where
  "python_test_path = repo @ [''.github'', ''workflows'', ''python-test.yml'']"

definition create_arguments0 :: "string list \<Rightarrow> exc + test_kwargs" where
  "create_arguments0 rest =
     (if rest = [''coverage'', ''--coverage-fail-regressed'', ''1''] then Inr regressed
      else Inl (SystemExit 2))"

definition scenario_document :: odict where
  "scenario_document =
     [(''name'', Str ''Python Tests''),
      (''run-name'', Str ''python-test''),
      (''on'', Map (Workflow_get_triggers scenario)),
      (''jobs'', Map [(''ruff'', ruff_job), (''python-tests-passed'', tests_passed_job [''ruff''])])]"

definition world_documented :: world where
  "world_documented =
     world0\<lparr>dirs := {[''home''], repo, repo @ [''src''], repo @ [''.github''],
                       repo @ [''.github'', ''workflows'']},
            files := [python_test_path \<mapsto> Dumped (Map scenario_document)]\<rparr>"

text \<open>
  The state once the generator has written the document of the scenario and the build
  action.
\<close>

definition world_built :: world where
  "world_built =
     world_documented
       \<lparr>dirs := dirs world_documented
                 \<union> {repo @ [''.github'', ''actions''], repo @ [''.github'', ''actions'', ''build'']},
        files := (files world_documented)
                   (build_file src \<mapsto> Dumped (Map (get_action_definition PythonBuildAction)))\<rparr>"

text \<open>A state in which a regular file stands where the directory \<^verbatim>\<open>.github\<close> should be.\<close>

definition world_blocked :: world where
  "world_blocked = world0\<lparr>files := [repo @ [''.github''] \<mapsto> Text []]\<rparr>"

section \<open>Properties of the command abstraction\<close>

lemma set_cwd_raise:
  "can_enter override w \<Longrightarrow> body (entered override w) = (Inl e, w') \<Longrightarrow>
     set_cwd override body w = (Inl e, w')"
  by (cases override) (simp_all add: set_cwd_def can_enter_def entered_def chdir_def)

lemma set_cwd_return:
  "can_enter override w \<Longrightarrow> body (entered override w) = (Inr x, w') \<Longrightarrow> cwd w \<in> dirs w' \<Longrightarrow>
     set_cwd override body w = (Inr x, w'\<lparr>cwd := cwd w\<rparr>)"
  by (cases override) (simp_all add: set_cwd_def can_enter_def entered_def chdir_def)

lemma except_other:
  "(\<forall>m. e \<noteq> CommandError m) \<Longrightarrow> except_CommandError (Inl e, w) = (Inl e, w)"
  by (cases e) simp_all

lemma init_subclass_lookup:
  "COMMAND_REGISTER (init_subclass cls r) n =
     (if n \<noteq> [] \<and> name cls = n then Some cls else COMMAND_REGISTER r n)"
  by (auto simp: init_subclass_def as_command_def Let_def)

lemma define_classes_lookup:
  "COMMAND_REGISTER (define_classes cs r) n =
     (if n \<noteq> [] \<and> (\<exists>c\<in>set cs. name c = n)
      then Some (last (filter (\<lambda>c. name c = n) cs))
      else COMMAND_REGISTER r n)"
proof (induction cs arbitrary: r)
  case Nil
  then show ?case by simp
next
  case (Cons cls rest)
  show ?case
    using Cons.IH [of "init_subclass cls r"] init_subclass_lookup [of cls r n]
    by (auto simp: filter_empty_conv)
qed

text \<open>
  C5. Once a sequence of command classes has been defined, starting from the empty
  register, a name resolves exactly when it is not empty and some class of the sequence
  carries it, and then to the class defined last under that name: of two classes with
  the same name only the later one is resolvable, and a class with the empty name is
  never registered. This holds for every sequence of classes, abstract ones included.
\<close>

theorem registration_last_wins:
  "resolve (define_classes cs no_registers) n =
     (if n \<noteq> [] \<and> (\<exists>c\<in>set cs. name c = n)
      then Inr (last (filter (\<lambda>c. name c = n) cs))
      else Inl (KeyError n))"
  using define_classes_lookup [of cs no_registers n]
  by (simp add: resolve_def no_registers_def)

theorem registration_last_wins_witness:
  "resolve (define_classes [cls_first, cls_unnamed, cls_second] no_registers) ''ruff''
     = Inr cls_second
   \<and> resolve (define_classes [cls_first, cls_unnamed, cls_second] no_registers) []
     = Inl (KeyError [])
   \<and> resolve (define_classes [cls_first, cls_unnamed, cls_second] no_registers) ''mypy''
     = Inl (KeyError ''mypy'')
   \<and> cls_first \<noteq> cls_second \<and> abstract cls_second"
  using registration_last_wins [of "[cls_first, cls_unnamed, cls_second]" "''ruff''"]
    registration_last_wins [of "[cls_first, cls_unnamed, cls_second]" "[]"]
    registration_last_wins [of "[cls_first, cls_unnamed, cls_second]" "''mypy''"]
  by (simp add: cls_first_def cls_second_def cls_unnamed_def)

text \<open>
  C4. In both invocation methods, when the arguments parse and the directory override
  (if any) can be entered: a \<open>CommandError\<close> that \<^verbatim>\<open>handle\<close> raises becomes
  \<open>SystemExit 1\<close>, with exactly one line, its message (empty without one), added to the
  error stream, so the exit status is 1; any other exception comes out unchanged and
  nothing is printed; a normal return gives exit status 0.
\<close>

theorem domain_failure_exit:
  fixes c :: "'ns command" and p :: "string list command"
  shows
  "(parse_args c (effective_args args w) = Inr ns \<and> can_enter (ccwd c) w \<longrightarrow>
      (\<forall>m w'. handle c ns (entered (ccwd c) w) = (Inl (CommandError m), w') \<longrightarrow>
         Command_call c args w
           = (Inl (SystemExit 1), w'\<lparr>stderr := stderr w' @ [str_err m]\<rparr>)
         \<and> exit_status (fst (Command_call c args w)) = 1)
    \<and> (\<forall>e w'. handle c ns (entered (ccwd c) w) = (Inl e, w')
                 \<and> (\<forall>m. e \<noteq> CommandError m) \<longrightarrow>
         Command_call c args w = (Inl e, w'))
    \<and> (\<forall>w'. handle c ns (entered (ccwd c) w) = (Inr (), w') \<and> cwd w \<in> dirs w' \<longrightarrow>
         Command_call c args w = (Inr (), w'\<lparr>cwd := cwd w\<rparr>)
         \<and> exit_status (fst (Command_call c args w)) = 0))
   \<and> (can_enter (ccwd p) w \<longrightarrow>
      (\<forall>m w'. handle p (effective_args args w) (entered (ccwd p) w)
                  = (Inl (CommandError m), w') \<longrightarrow>
         CommandWithParser_call p args w
           = (Inl (SystemExit 1), w'\<lparr>stderr := stderr w' @ [str_err m]\<rparr>)
         \<and> exit_status (fst (CommandWithParser_call p args w)) = 1)
    \<and> (\<forall>e w'. handle p (effective_args args w) (entered (ccwd p) w) = (Inl e, w')
                 \<and> (\<forall>m. e \<noteq> CommandError m) \<longrightarrow>
         CommandWithParser_call p args w = (Inl e, w'))
    \<and> (\<forall>w'. handle p (effective_args args w) (entered (ccwd p) w) = (Inr (), w')
               \<and> cwd w \<in> dirs w' \<longrightarrow>
         CommandWithParser_call p args w = (Inr (), w'\<lparr>cwd := cwd w\<rparr>)
         \<and> exit_status (fst (CommandWithParser_call p args w)) = 0))"
  by (auto simp: Command_call_def CommandWithParser_call_def
      set_cwd_raise set_cwd_return except_other)

theorem domain_failure_exit_witness:
  "Command_call (parsed_command (Inl (CommandError (Some ''One or more tests failed.'')))) None world0
     = (Inl (SystemExit 1),
        world0\<lparr>cwd := repo @ [''src''], stderr := [''One or more tests failed.'']\<rparr>)
   \<and> Command_call (parsed_command (Inl NotImplementedError)) None world0
     = (Inl NotImplementedError, world0\<lparr>cwd := repo @ [''src'']\<rparr>)
   \<and> Command_call (parsed_command (Inr ())) None world0 = (Inr (), world0)
   \<and> CommandWithParser_call (raw_command (Inl (CommandError None))) None world0
     = (Inl (SystemExit 1), world0\<lparr>cwd := repo @ [''src''], stderr := [[]]\<rparr>)
   \<and> CommandWithParser_call (raw_command (Inl EOFError)) None world0
     = (Inl EOFError, world0\<lparr>cwd := repo @ [''src'']\<rparr>)
   \<and> CommandWithParser_call (raw_command (Inr ())) None world0 = (Inr (), world0)"
  using domain_failure_exit [of "parsed_command (Inl (CommandError (Some ''One or more tests failed.'')))"
          None world0 "()" "raw_command (Inl (CommandError None))"]
        domain_failure_exit [of "parsed_command (Inl NotImplementedError)"
          None world0 "()" "raw_command (Inl EOFError)"]
        domain_failure_exit [of "parsed_command (Inr ())"
          None world0 "()" "raw_command (Inr ())"]
  by (simp add: parsed_command_def raw_command_def world0_def can_enter_def entered_def repo_def)

text \<open>
  C6. The previous directory is not restored on every exit path: a command with a
  directory override whose \<^verbatim>\<open>handle\<close> raises leaves the process in the override
  directory, for the domain failure and for any other exception; only the normal
  return restores the directory.
\<close>

theorem cwd_not_restored_on_error:
  "cwd world0 = repo
   \<and> Command_call (parsed_command (Inl (CommandError None))) None world0
       = (Inl (SystemExit 1), world0\<lparr>cwd := repo @ [''src''], stderr := [[]]\<rparr>)
   \<and> cwd (snd (Command_call (parsed_command (Inl (CommandError None))) None world0)) \<noteq> cwd world0
   \<and> cwd (snd (CommandWithParser_call (raw_command (Inl NotImplementedError)) None world0))
       \<noteq> cwd world0
   \<and> cwd (snd (Command_call (parsed_command (Inr ())) None world0)) = cwd world0"
  by (simp add: Command_call_def CommandWithParser_call_def set_cwd_def chdir_def Let_def
      parsed_command_def raw_command_def world0_def repo_def)

section \<open>Properties of discovery\<close>



lemma module_names_scripts:
  "module_names scripts_tree
     = [''.ci.approval_bot'', ''.ci.python_tests'', ''.python.linters'', ''.python.tests'']"
  by (simp add: module_names_def scripts_tree_def startswith_def suffix_def rfind_def
      import_name_def)












lemma name_collision:
  "import_name [''ci'', ''a.b.py''] = ''ci.a.b'' \<and> import_name [''ci'', ''a'', ''b.py''] = ''ci.a.b''
   \<and> \<not> plain [''ci'', ''a.b.py'']"
  by (simp add: import_name_def plain_def stem_def)




section \<open>Properties of the document builders\<close>

text \<open>
  The representer asks for the block style exactly for the strings that hold a line
  break; what the emitter then writes is not part of this package.
\<close>

lemma representer_style:
  "style (multiline_str_representer data) = (if CHR 0x0A \<in> set data then Some (CHR ''|'') else None)"
  "node_value (multiline_str_representer data) = data"
  by (simp_all add: multiline_str_representer_def)

lemma mkdir_from_files: "mkdir_from pre cs w = (r, w') \<Longrightarrow> files w' = files w"
  by (induction pre cs w rule: mkdir_from.induct) (auto simp: Let_def split: if_splits)

lemma mkdir_parents_files: "mkdir_parents p w = (r, w') \<Longrightarrow> files w' = files w"
  unfolding mkdir_parents_def by (rule mkdir_from_files)

lemma open_w_files: "open_w p w = (Inr x, w') \<Longrightarrow> files w' = (files w)(p \<mapsto> Text [])"
  by (auto simp: open_w_def split: if_splits)

text \<open>
  C2, as the code has it. When the permission hook and the trigger hook both return
  empty mappings and the job hook returns, the document has the four keys \<^verbatim>\<open>name\<close>,
  \<^verbatim>\<open>run-name\<close>, \<^verbatim>\<open>on\<close> and \<^verbatim>\<open>jobs\<close>, in this order: the permissions key is left out,
  the trigger key \<^verbatim>\<open>on\<close> is set, to the empty mapping.
\<close>

theorem empty_hooks_definition:
  "get_permissions flow = [] \<and> get_triggers flow kw = [] \<and> get_jobs flow kw w = (Inr jobs, w') \<longrightarrow>
     get_workflow_definition flow kw w
       = (Inr [(''name'', Str (workflow_name flow)), (''run-name'', Str (workflow_id flow)),
               (''on'', Map []), (''jobs'', Map jobs)], w')"
  by (simp add: get_workflow_definition_def)

theorem empty_hooks_definition_witness:
  "get_workflow_definition bare_workflow () world0
       = (Inr [(''name'', Str ''Bare''), (''run-name'', Str ''bare''),
               (''on'', Map []), (''jobs'', Map [])], world0)"
  using empty_hooks_definition [of bare_workflow "()" world0 "[]" world0]
  by (simp add: bare_workflow_def)

text \<open>
  C2, as stated, fails for a builder whose hooks all return empty mappings: the
  document it builds, and the one \<^verbatim>\<open>create\<close> hands to the serializer for the file,
  has the key \<^verbatim>\<open>on\<close>.
\<close>

theorem empty_triggers_key_present:
  "get_permissions bare_workflow = [] \<and> get_triggers bare_workflow () = []
   \<and> fst (get_workflow_definition bare_workflow () world0)
       = Inr [(''name'', Str ''Bare''), (''run-name'', Str ''bare''),
               (''on'', Map []), (''jobs'', Map [])]
   \<and> ''on'' \<in> set (keys [(''name'', Str ''Bare''), (''run-name'', Str ''bare''),
               (''on'', Map []), (''jobs'', Map [])])
   \<and> files (snd (Workflow_create (repo @ [''src'']) bare_workflow () world0))
        (repo @ [''.github'', ''workflows'', ''bare.yml''])
       = Some (Dumped (Map [(''name'', Str ''Bare''), (''run-name'', Str ''bare''),
               (''on'', Map []), (''jobs'', Map [])]))"
  by (simp add: get_workflow_definition_def bare_workflow_def keys_def Workflow_create_def
     workflow_path_def joinpath_def parts_def startswith_def BASE_WORKFLOW_DIR_def repo_def
     mkdir_parents_def world0_def open_w_def below_file_def ancestors_def Let_def)

text \<open>
  C9. A pipeline or action command invoked with an empty argument list (no
  sub-command) ends in \<open>SystemExit 1\<close> after printing the one line
  \<^verbatim>\<open>No command provided. Use `add` or `delete` command.\<close> to the error stream: the
  domain failure of \<^verbatim>\<open>handle\<close>, caught at the boundary, not an exit of the argument
  parser. The sub-commands that \<^verbatim>\<open>add_arguments\<close> registers are \<^verbatim>\<open>delete\<close> and
  \<^verbatim>\<open>create\<close>; there is no \<^verbatim>\<open>add\<close>.
\<close>

theorem no_subcommand_is_domain_failure:
  "(can_enter (workflow_cwd flow) w \<and> effective_args args w = [] \<longrightarrow>
      Command_call (Workflow_command nm pr flow create create_arguments) args w
        = (Inl (SystemExit 1),
           (entered (workflow_cwd flow) w)
             \<lparr>stderr := stderr w @ [''No command provided. Use `add` or `delete` command.'']\<rparr>))
   \<and> (can_enter (action_cwd a) w \<and> effective_args args w = [] \<longrightarrow>
      Command_call (Action_command nm pr a) args w
        = (Inl (SystemExit 1),
           (entered (action_cwd a) w)
             \<lparr>stderr := stderr w @ [''No command provided. Use `add` or `delete` command.'']\<rparr>))
   \<and> map fst (add_arguments delete create create_arguments) = [''delete'', ''create'']"
  by (auto simp: Command_call_def Workflow_command_def Action_command_def Workflow_handle_def
      Action_handle_def set_cwd_raise entered_def add_arguments_def split: option.splits)

lemma bare_path: "workflow_path src bare_workflow = [''home'', ''repo'', ''.github'', ''workflows'', ''bare.yml'']"
  by (simp add: workflow_path_def joinpath_def parts_def startswith_def BASE_WORKFLOW_DIR_def
      src_def repo_def bare_workflow_def)

lemma build_path: "action_path src PythonBuildAction = [''home'', ''repo'', ''.github'', ''actions'', ''build'']"
  by (simp add: action_path_def joinpath_def parts_def startswith_def BASE_ACTION_DIR_def
      src_def repo_def PythonBuildAction_def)

lemma bare_definition:
  "get_workflow_definition bare_workflow () w
     = (Inr [(''name'', Str ''Bare''), (''run-name'', Str ''bare''),
             (''on'', Map []), (''jobs'', Map [])], w)"
  by (simp add: get_workflow_definition_def bare_workflow_def)

lemma bare_create: "fst (Workflow_create src bare_workflow () world0) = Inr ()"
  by (simp add: Workflow_create_def bare_path mkdir_parents_def world0_def open_w_def repo_def
      below_file_def ancestors_def bare_definition Let_def)

lemma build_create: "fst (Action_create src PythonBuildAction world0) = Inr ()"
  by (simp add: Action_create_def build_path mkdir_parents_def world0_def open_w_def repo_def
      below_file_def ancestors_def Let_def)

theorem no_subcommand_witness:
  "Command_call (Workflow_command ''bare'' src bare_workflow (Workflow_create src bare_workflow) no_arguments)
       None world0
     = (Inl (SystemExit 1),
        world0\<lparr>stderr := [''No command provided. Use `add` or `delete` command.'']\<rparr>)
   \<and> Command_call (Action_command ''github_python_build'' src PythonBuildAction) (Some []) world0
     = (Inl (SystemExit 1),
        world0\<lparr>stderr := [''No command provided. Use `add` or `delete` command.'']\<rparr>)"
  using no_subcommand_is_domain_failure [of bare_workflow world0 None "''bare''" src
      "Workflow_create src bare_workflow" no_arguments PythonBuildAction]
    no_subcommand_is_domain_failure [of bare_workflow world0 "Some []" "''github_python_build''" src
      "Workflow_create src bare_workflow" no_arguments PythonBuildAction]
  by (simp add: can_enter_def entered_def bare_workflow_def PythonBuildAction_def world0_def)

section \<open>Properties of the test-pipeline generator\<close>

lemma keys_setitem: "keys (setitem d k v) = (if k \<in> set (keys d) then keys d else keys d @ [k])"
  by (induction d) (force simp: keys_def)+

lemma selected_explicit:
  "ts \<noteq> [] \<Longrightarrow> selected m nm (Some ts) w = (Inr (nm \<in> set ts \<or> ''ALL'' \<in> set ts), w)"
  by (simp add: selected_def)

lemma get_tests_loop_explicit:
  "ts \<noteq> [] \<Longrightarrow>
     get_tests_loop jobs all (Some ts) w
       = (Inr (foldl (\<lambda>j t. if name t \<in> set ts \<or> ''ALL'' \<in> set ts
                              then setitem j (name t) (suite_job (name t)) else j) jobs all), w)"
  by (induction all arbitrary: jobs) (simp_all add: selected_explicit)

lemma collect_required_explicit:
  "collect_required names (Some rq) acc w = (Inr (acc @ filter (marked rq) names), w)"
  by (induction names arbitrary: acc) (simp_all add: marked_def)

lemma get_tests_passed_explicit:
  "get_tests_passed jobs (Some rq) w
     = (Inr (if filter (marked rq) (keys jobs) = [] then jobs
             else setitem jobs gate (tests_passed_job (filter (marked rq) (keys jobs)))), w)"
  by (simp add: get_tests_passed_def collect_required_explicit gate_def)

lemma ruff_only_loop:
  "keys jobs = [''ruff''] \<Longrightarrow>
   keys (foldl (\<lambda>j t. if name t = ''ruff''
                        then setitem j (name t) (suite_job (name t)) else j) jobs all) = [''ruff'']"
  by (induction all arbitrary: jobs) (simp_all add: keys_setitem)

lemma scenario_graph:
  assumes "all_tests \<noteq> []" "tests kw = Some [''ruff'']" "required kw = Some [''ruff'']"
  shows "\<exists>job. GitHubPythonTest_get_jobs all_tests kw w
           = (Inr [(''ruff'', job), (gate, tests_passed_job [''ruff''])], w)"
proof -
  have l: "get_linters [] (Some [''ruff'']) w = (Inr [(''ruff'', ruff_job)], w)"
    by (simp add: get_linters_def selected_explicit)
  have s: "get_static_tests [(''ruff'', ruff_job)] (Some [''ruff'']) w = (Inr [(''ruff'', ruff_job)], w)"
    by (simp add: get_static_tests_def selected_explicit)
  obtain jobs where t: "get_tests all_tests [(''ruff'', ruff_job)] (Some [''ruff'']) w = (Inr jobs, w)"
    and k: "keys jobs = [''ruff'']"
    using assms(1) ruff_only_loop [of "[(''ruff'', ruff_job)]" all_tests]
    by (simp add: get_tests_def get_tests_loop_explicit keys_def)
  from k obtain job where j: "jobs = [(''ruff'', job)]"
    by (cases jobs) (auto simp: keys_def)
  have c: "get_coverage jobs (Some [''ruff'']) fu fr w = (Inr jobs, w)" for fu fr
    by (simp add: get_coverage_def selected_explicit)
  have p: "get_tests_passed jobs (Some [''ruff'']) w
      = (Inr [(''ruff'', job), (gate, tests_passed_job [''ruff''])], w)"
    by (simp add: get_tests_passed_explicit j keys_def marked_def gate_def)
  show ?thesis
    using l s t c p assms(2,3) by (simp add: GitHubPythonTest_get_jobs_def j)
qed

lemma chain_sub:
  "A1 \<subseteq> {} \<union> B1 \<Longrightarrow> A2 \<subseteq> A1 \<union> B2 \<Longrightarrow> A3 \<subseteq> A2 \<union> B3 \<union> N \<Longrightarrow> A4 \<subseteq> A3 \<union> B4
     \<Longrightarrow> x \<notin> B1 \<Longrightarrow> x \<notin> B2 \<Longrightarrow> x \<notin> B3 \<Longrightarrow> x \<notin> B4 \<Longrightarrow> x \<notin> N \<Longrightarrow> x \<notin> A4"
  by blast

lemma gate_not_linter: "gate \<notin> {''ruff'', ''lock''}" by (simp add: gate_def)
lemma gate_not_static: "gate \<notin> {''mypy'', ''importlinter''}" by (simp add: gate_def)
lemma gate_not_pytest: "gate \<notin> {''pytest''}" by (simp add: gate_def)
lemma gate_not_coverage: "gate \<notin> {''coverage''}" by (simp add: gate_def)

lemma get_linters_keys:
  "get_linters jobs tsts w = (Inr jobs', w') \<Longrightarrow>
     set (keys jobs') \<subseteq> set (keys jobs) \<union> {''ruff'', ''lock''}"
  by (auto simp: get_linters_def keys_setitem Let_def split: prod.splits sum.splits if_splits)

lemma get_static_tests_keys:
  "get_static_tests jobs tsts w = (Inr jobs', w') \<Longrightarrow>
     set (keys jobs') \<subseteq> set (keys jobs) \<union> {''mypy'', ''importlinter''}"
  by (auto simp: get_static_tests_def keys_setitem Let_def split: prod.splits sum.splits if_splits)

lemma get_tests_loop_keys:
  "get_tests_loop jobs all tsts w = (Inr jobs', w') \<Longrightarrow>
     set (keys jobs') \<subseteq> set (keys jobs) \<union> name ` set all"
proof (induction all arbitrary: jobs w)
  case Nil
  then show ?case by simp
next
  case (Cons t rest)
  from Cons.prems obtain b w1 where
    s: "selected (''Do you want to run '' @ name t @ ''?'') (name t) tsts w = (Inr b, w1)" and
    r: "get_tests_loop (if b then setitem jobs (name t) (suite_job (name t)) else jobs) rest tsts w1
          = (Inr jobs', w')"
    by (auto split: prod.splits sum.splits if_splits)
  from Cons.IH [OF r] show ?case
    by (auto simp: keys_setitem split: if_splits)
qed

lemma get_tests_keys:
  "get_tests all jobs tsts w = (Inr jobs', w') \<Longrightarrow>
     set (keys jobs') \<subseteq> set (keys jobs) \<union> {''pytest''} \<union> name ` set all"
  by (auto simp: get_tests_def keys_setitem split: prod.splits sum.splits if_splits
      dest!: get_tests_loop_keys)

lemma get_coverage_keys:
  "get_coverage jobs tsts fu fr w = (Inr jobs', w') \<Longrightarrow>
     set (keys jobs') \<subseteq> set (keys jobs) \<union> {''coverage''}"
  by (auto simp: get_coverage_def keys_setitem Let_def split: prod.splits sum.splits if_splits)

lemma get_jobs_stages:
  assumes "GitHubPythonTest_get_jobs all kw w = (Inr jobs, w')" and "gate \<notin> name ` set all"
  shows "\<exists>pre w4. get_tests_passed pre (required kw) w4 = (Inr jobs, w') \<and> gate \<notin> set (keys pre)"
proof -
  from assms(1) obtain j1 w1 j2 w2 j3 w3 j4 w4 where
    a: "get_linters [] (tests kw) w = (Inr j1, w1)" and
    b: "get_static_tests j1 (tests kw) w1 = (Inr j2, w2)" and
    c: "get_tests all j2 (tests kw) w2 = (Inr j3, w3)" and
    d: "get_coverage j3 (tests kw) (coverage_fail_under kw) (coverage_fail_regressed kw) w3
          = (Inr j4, w4)" and
    e: "get_tests_passed j4 (required kw) w4 = (Inr jobs, w')"
    by (auto simp: GitHubPythonTest_get_jobs_def split: prod.splits sum.splits)
  have k0: "set (keys []) = {}" by (simp add: keys_def)
  have "gate \<notin> set (keys j4)"
    by (rule chain_sub [OF get_linters_keys [OF a, unfolded k0] get_static_tests_keys [OF b]
          get_tests_keys [OF c] get_coverage_keys [OF d]
          gate_not_linter gate_not_static gate_not_pytest gate_not_coverage assms(2)])
  with e show ?thesis by (intro exI conjI)
qed

lemma gate_iff_required:
  assumes "GitHubPythonTest_get_jobs all kw w = (Inr jobs, w')"
    and "required kw = Some rq" and "gate \<notin> name ` set all"
  shows "gate \<in> set (keys jobs) \<longleftrightarrow> (\<exists>n\<in>set (keys jobs). n \<noteq> gate \<and> marked rq n)"
proof -
  from get_jobs_stages [OF assms(1,3)] obtain pre w4 where
    p: "get_tests_passed pre (required kw) w4 = (Inr jobs, w')" and
    g: "gate \<notin> set (keys pre)"
    by (elim exE conjE)
  show ?thesis
  proof (cases "filter (marked rq) (keys pre) = []")
    case True
    with p assms(2) have j: "jobs = pre"
      by (simp add: get_tests_passed_explicit)
    from True have n: "\<forall>n\<in>set (keys pre). \<not> marked rq n"
      by (simp add: filter_empty_conv)
    have "\<not> (\<exists>n\<in>set (keys pre). n \<noteq> gate \<and> marked rq n)"
    proof
      assume "\<exists>n\<in>set (keys pre). n \<noteq> gate \<and> marked rq n"
      then obtain m where m: "m \<in> set (keys pre)" "marked rq m" by (elim bexE conjE)
      from n m(1) have "\<not> marked rq m" by (rule bspec)
      from this m(2) show False by (rule notE)
    qed
    with g show ?thesis
      unfolding j by simp
  next
    case False
    with p assms(2)
    have "jobs = setitem pre gate (tests_passed_job (filter (marked rq) (keys pre)))"
      by (simp add: get_tests_passed_explicit eq_commute)
    then have "keys jobs = keys pre @ [gate]"
      using g by (simp add: keys_setitem)
    then have s: "set (keys jobs) = insert gate (set (keys pre))" by simp
    from False obtain n where n: "n \<in> set (keys pre)" "marked rq n"
      by (auto simp: filter_empty_conv)
    with g have "n \<noteq> gate" by (intro notI) simp
    with n have "\<exists>n\<in>set (keys jobs). n \<noteq> gate \<and> marked rq n"
      unfolding s by (intro bexI [of _ n] conjI) simp_all
    then show ?thesis
      unfolding s by simp
  qed
qed

lemma prompt_no:
  "says_no l \<Longrightarrow> prompt_bool m d (w\<lparr>stdin := l # ls\<rparr>) = (Inr False, w\<lparr>stdin := ls\<rparr>)"
  by (auto simp: prompt_bool_def says_no_def Let_def)

lemma collect_required_no:
  "list_all says_no ans \<Longrightarrow> length ans = length names \<Longrightarrow>
     collect_required names None acc (w\<lparr>stdin := ans @ rest\<rparr>) = (Inr acc, w\<lparr>stdin := rest\<rparr>)"
proof (induction names arbitrary: ans w)
  case Nil
  then show ?case by simp
next
  case (Cons n names)
  then obtain l ls where a: "ans = l # ls" by (cases ans) auto
  with Cons.prems have "says_no l" "list_all says_no ls" "length ls = length names" by auto
  then show ?case
    using Cons.IH [of ls w] by (simp add: a prompt_no)
qed

lemma get_tests_passed_no:
  "list_all says_no ans \<Longrightarrow> length ans = length (keys jobs) \<Longrightarrow>
     get_tests_passed jobs None (w\<lparr>stdin := ans @ rest\<rparr>) = (Inr jobs, w\<lparr>stdin := rest\<rparr>)"
  by (simp add: get_tests_passed_def collect_required_no)

lemma suite_registry:
  "get_all_tests (define_classes python_tests_classes no_registers) = [Pytest]"
  by (simp add: python_tests_classes_def no_registers_def init_subclass_def as_command_def
      get_all_tests_def Pytest_def Let_def)

lemma needs_gate: "needs (tests_passed_job ar) = Some (Seq (map Str ar))"
  by (simp add: needs_def tests_passed_job_def)

text \<open>
  C1. With a non-empty suite registry (in this repository \<^verbatim>\<open>Pytest\<close> registers itself
  when its module is imported), the generator called with \<^verbatim>\<open>tests=["ruff"]\<close>,
  \<^verbatim>\<open>required=["ruff"]\<close> and \<^verbatim>\<open>coverage_fail_under=80\<close> reads nothing from the terminal
  and returns a job graph whose keys are \<^verbatim>\<open>ruff\<close> and \<^verbatim>\<open>python-tests-passed\<close>, in this
  order, the gate job having the dependency list \<^verbatim>\<open>["ruff"]\<close>. Whenever the generator
  returns a job graph for a given \<^verbatim>\<open>required\<close> list, the gate job is in it exactly when
  some other job of the graph is marked required by the list; and when the user is asked
  and answers no for every job, the graph is returned without a gate job.
\<close>

theorem scenario_job_graph:
  "(all_tests \<noteq> [] \<and> tests kw = Some [''ruff''] \<and> required kw = Some [''ruff'']
      \<and> coverage_fail_under kw = Some 80 \<longrightarrow>
      (\<exists>jobs g. GitHubPythonTest_get_jobs all_tests kw w = (Inr jobs, w)
         \<and> keys jobs = [''ruff'', ''python-tests-passed'']
         \<and> map_of jobs ''python-tests-passed'' = Some g
         \<and> needs g = Some (Seq [Str ''ruff''])))
   \<and> (GitHubPythonTest_get_jobs all_tests kw w = (Inr jobs', w') \<and> required kw = Some rq
        \<and> gate \<notin> name ` set all_tests \<longrightarrow>
        (gate \<in> set (keys jobs') \<longleftrightarrow> (\<exists>n\<in>set (keys jobs'). n \<noteq> gate \<and> marked rq n)))
   \<and> (list_all says_no ans \<and> length ans = length (keys pre) \<longrightarrow>
        get_tests_passed pre None (w\<lparr>stdin := ans @ rest\<rparr>) = (Inr pre, w\<lparr>stdin := rest\<rparr>))"
proof -
  have one: "\<exists>jobs g. GitHubPythonTest_get_jobs all_tests kw w = (Inr jobs, w)
         \<and> keys jobs = [''ruff'', ''python-tests-passed'']
         \<and> map_of jobs ''python-tests-passed'' = Some g
         \<and> needs g = Some (Seq [Str ''ruff''])"
    if "all_tests \<noteq> []" "tests kw = Some [''ruff'']" "required kw = Some [''ruff'']"
  proof -
    from scenario_graph [where w = w, OF that] obtain job where
      "GitHubPythonTest_get_jobs all_tests kw w
         = (Inr [(''ruff'', job), (gate, tests_passed_job [''ruff''])], w)"
      by (elim exE)
    then show ?thesis
      by (simp add: keys_def gate_def needs_gate)
  qed
  have two: "gate \<in> set (keys jobs') \<longleftrightarrow> (\<exists>n\<in>set (keys jobs'). n \<noteq> gate \<and> marked rq n)"
    if "GitHubPythonTest_get_jobs all_tests kw w = (Inr jobs', w')" "required kw = Some rq"
       "gate \<notin> name ` set all_tests"
    using that by (rule gate_iff_required)
  have three: "get_tests_passed pre None (w\<lparr>stdin := ans @ rest\<rparr>) = (Inr pre, w\<lparr>stdin := rest\<rparr>)"
    if "list_all says_no ans" "length ans = length (keys pre)"
    using that by (rule get_tests_passed_no)
  show ?thesis
    apply (intro conjI impI)
    subgoal by (rule one) simp_all
    subgoal by (rule two) simp_all
    subgoal by (rule three) simp_all
    done
qed

lemma scenario_tests: "tests scenario = Some [''ruff'']" "required scenario = Some [''ruff'']"
  "coverage_fail_under scenario = Some 80"
  by (simp_all add: scenario_def)

lemma ruff_only:
  "GitHubPythonTest_get_jobs [Pytest] (scenario\<lparr>required := Some []\<rparr>) world0
     = (Inr [(''ruff'', ruff_job)], world0)"
  by (simp add: GitHubPythonTest_get_jobs_def scenario_def get_linters_def get_static_tests_def
      get_tests_def get_coverage_def get_tests_passed_def selected_def Pytest_def keys_def)

theorem scenario_job_graph_witness:
  "(\<exists>jobs g. GitHubPythonTest_get_jobs [Pytest] scenario world0 = (Inr jobs, world0)
         \<and> keys jobs = [''ruff'', ''python-tests-passed'']
         \<and> map_of jobs ''python-tests-passed'' = Some g
         \<and> needs g = Some (Seq [Str ''ruff'']))
   \<and> GitHubPythonTest_get_jobs [Pytest] (scenario\<lparr>required := Some []\<rparr>) world0
        = (Inr [(''ruff'', ruff_job)], world0)
   \<and> gate \<notin> set (keys [(''ruff'', ruff_job)])
   \<and> get_tests_passed [(''ruff'', ruff_job)] None (world0\<lparr>stdin := [''No'', ''y'']\<rparr>)
        = (Inr [(''ruff'', ruff_job)], world0\<lparr>stdin := [''y'']\<rparr>)"
  using scenario_job_graph [of "[Pytest]" scenario world0 "[(''ruff'', ruff_job)]" world0 "[]"
          "[''No'']" "[(''ruff'', ruff_job)]" "[''y'']"]
        scenario_job_graph [of "[Pytest]" "scenario\<lparr>required := Some []\<rparr>" world0
          "[(''ruff'', ruff_job)]" world0 "[]" "[''No'']" "[(''ruff'', ruff_job)]" "[''y'']"]
        ruff_only
  by (simp add: scenario_tests Pytest_def gate_def marked_def says_no_def lower_def lower_char_def
      keys_def)

lemma reads_only_refl: "reads_only w w"
  by (simp add: reads_only_def)

lemma reads_only_trans: "reads_only w w1 \<Longrightarrow> reads_only w1 w2 \<Longrightarrow> reads_only w w2"
  by (simp add: reads_only_def)

lemma prompt_bool_reads: "prompt_bool m d w = (r, w') \<Longrightarrow> reads_only w w'"
  by (auto simp: prompt_bool_def reads_only_def split: prod.splits option.splits)

lemma selected_reads: "selected m nm tsts w = (r, w') \<Longrightarrow> reads_only w w'"
  by (auto simp: selected_def reads_only_refl split: option.splits if_splits
      dest: prompt_bool_reads)

lemma get_linters_reads: "get_linters jobs tsts w = (r, w') \<Longrightarrow> reads_only w w'"
  by (auto simp: get_linters_def Let_def split: prod.splits sum.splits
      dest!: selected_reads intro: reads_only_trans)

lemma get_static_tests_reads: "get_static_tests jobs tsts w = (r, w') \<Longrightarrow> reads_only w w'"
  by (auto simp: get_static_tests_def Let_def split: prod.splits sum.splits
      dest!: selected_reads intro: reads_only_trans)

lemma get_tests_loop_reads: "get_tests_loop jobs all tsts w = (r, w') \<Longrightarrow> reads_only w w'"
proof (induction all arbitrary: jobs w)
  case Nil
  then show ?case by (simp add: reads_only_refl)
next
  case (Cons t rest)
  obtain b w1 where s: "selected (''Do you want to run '' @ name t @ ''?'') (name t) tsts w = (b, w1)"
    by (cases "selected (''Do you want to run '' @ name t @ ''?'') (name t) tsts w")
  note r1 = selected_reads [OF s]
  show ?case
  proof (cases b)
    case (Inl e)
    with Cons.prems s have "w' = w1" by simp
    with r1 show ?thesis by simp
  next
    case (Inr run)
    with Cons.prems s have
      "get_tests_loop (if run then setitem jobs (name t) (suite_job (name t)) else jobs) rest tsts w1
         = (r, w')"
      by (simp split: if_splits)
    from reads_only_trans [OF r1 Cons.IH [OF this]] show ?thesis .
  qed
qed

lemma get_tests_reads: "get_tests all jobs tsts w = (r, w') \<Longrightarrow> reads_only w w'"
  by (auto simp: get_tests_def split: prod.splits sum.splits if_splits
      dest!: selected_reads get_tests_loop_reads)

lemma get_coverage_reads: "get_coverage jobs tsts fu fr w = (r, w') \<Longrightarrow> reads_only w w'"
  by (auto simp: get_coverage_def Let_def split: prod.splits sum.splits if_splits
      dest!: selected_reads)

lemma collect_required_reads: "collect_required names req acc w = (r, w') \<Longrightarrow> reads_only w w'"
proof (induction names arbitrary: acc w)
  case Nil
  then show ?case by (simp add: reads_only_refl)
next
  case (Cons n names)
  show ?case
  proof (cases req)
    case None
    obtain b w1 where s: "prompt_bool (''Is '' @ n @ '' required for the CI?'') True w = (b, w1)"
      by (cases "prompt_bool (''Is '' @ n @ '' required for the CI?'') True w")
    note r1 = prompt_bool_reads [OF s]
    show ?thesis
    proof (cases b)
      case (Inl e)
      with Cons.prems s None have "w' = w1" by simp
      with r1 show ?thesis by simp
    next
      case (Inr tr)
      with Cons.prems s None have
        "collect_required names req (if tr then acc @ [n] else acc) w1 = (r, w')"
        by simp
      from reads_only_trans [OF r1 Cons.IH [OF this]] show ?thesis .
    qed
  next
    case (Some rq)
    with Cons.prems have
      "collect_required names req (if n \<in> set rq \<or> ''ALL'' \<in> set rq then acc @ [n] else acc) w
         = (r, w')"
      by simp
    from Cons.IH [OF this] show ?thesis .
  qed
qed

lemma get_tests_passed_reads: "get_tests_passed jobs req w = (r, w') \<Longrightarrow> reads_only w w'"
  by (auto simp: get_tests_passed_def split: prod.splits sum.splits if_splits
      dest!: collect_required_reads)

lemma get_jobs_reads:
  assumes "GitHubPythonTest_get_jobs all kw w = (r, w')"
  shows "reads_only w w'"
proof -
  obtain r1 w1 where a: "get_linters [] (tests kw) w = (r1, w1)"
    by (cases "get_linters [] (tests kw) w")
  note ra = get_linters_reads [OF a]
  show ?thesis
  proof (cases r1)
    case (Inl e)
    with assms a have "w' = w1" by (simp add: GitHubPythonTest_get_jobs_def)
    with ra show ?thesis by simp
  next
    case j1: (Inr j1)
    obtain r2 w2 where b: "get_static_tests j1 (tests kw) w1 = (r2, w2)"
      by (cases "get_static_tests j1 (tests kw) w1")
    note rb = reads_only_trans [OF ra get_static_tests_reads [OF b]]
    show ?thesis
    proof (cases r2)
      case (Inl e)
      with assms a j1 b have "w' = w2" by (simp add: GitHubPythonTest_get_jobs_def)
      with rb show ?thesis by simp
    next
      case j2: (Inr j2)
      obtain r3 w3 where c: "get_tests all j2 (tests kw) w2 = (r3, w3)"
        by (cases "get_tests all j2 (tests kw) w2")
      note rc = reads_only_trans [OF rb get_tests_reads [OF c]]
      show ?thesis
      proof (cases r3)
        case (Inl e)
        with assms a j1 b j2 c have "w' = w3" by (simp add: GitHubPythonTest_get_jobs_def)
        with rc show ?thesis by simp
      next
        case j3: (Inr j3)
        obtain r4 w4 where d: "get_coverage j3 (tests kw) (coverage_fail_under kw)
              (coverage_fail_regressed kw) w3 = (r4, w4)"
          by (cases "get_coverage j3 (tests kw) (coverage_fail_under kw)
              (coverage_fail_regressed kw) w3")
        note rd = reads_only_trans [OF rc get_coverage_reads [OF d]]
        show ?thesis
        proof (cases r4)
          case (Inl e)
          with assms a j1 b j2 c j3 d have "w' = w4" by (simp add: GitHubPythonTest_get_jobs_def)
          with rd show ?thesis by simp
        next
          case j4: (Inr j4)
          with assms a j1 b j2 c j3 d have "get_tests_passed j4 (required kw) w4 = (r, w')"
            by (simp add: GitHubPythonTest_get_jobs_def)
          from reads_only_trans [OF rd get_tests_passed_reads [OF this]] show ?thesis .
        qed
      qed
    qed
  qed
qed

lemma mkdir_from_fields:
  "mkdir_from pre cs w = (r, w') \<Longrightarrow>
     cwd w' = cwd w \<and> files w' = files w \<and> argv w' = argv w \<and> stdin w' = stdin w
     \<and> stderr w' = stderr w"
  by (induction pre cs w rule: mkdir_from.induct) (auto simp: Let_def split: if_splits)

lemma open_w_fields:
  "open_w p w = (Inr x, w') \<Longrightarrow>
     cwd w' = cwd w \<and> dirs w' = dirs w \<and> files w' = (files w)(p \<mapsto> Text [])
     \<and> argv w' = argv w \<and> stdin w' = stdin w \<and> stderr w' = stderr w"
  by (auto simp: open_w_def split: if_splits)

lemma coverage_regressed:
  "selected ''Do you want to run coverage?'' ''coverage'' tsts w = (Inr True, w1) \<Longrightarrow>
     get_coverage jobs tsts fu (Some True) w = (Inl NotImplementedError, w1)"
  by (simp add: get_coverage_def)

lemma get_jobs_raises:
  assumes "coverage_fail_regressed kw = Some True"
    and "get_linters [] (tests kw) w = (Inr j1, wa)"
    and "get_static_tests j1 (tests kw) wa = (Inr j2, wb)"
    and "get_tests all j2 (tests kw) wb = (Inr j3, wc)"
    and "selected ''Do you want to run coverage?'' ''coverage'' (tests kw) wc = (Inr True, wd)"
  shows "GitHubPythonTest_get_jobs all kw w = (Inl NotImplementedError, wd)"
  using assms(1-4) coverage_regressed [OF assms(5), of j3 "coverage_fail_under kw"]
  by (simp add: GitHubPythonTest_get_jobs_def)

lemma create_raises:
  assumes "GitHubPythonTest_get_jobs all kw w2 = (Inl e, w3)"
    and "mkdir_parents (butlast (workflow_path pr (GitHubPythonTest all))) w = (Inr (), w1)"
    and "open_w (workflow_path pr (GitHubPythonTest all)) w1 = (Inr (), w2)"
  shows "GitHubPythonTest_create pr all kw w = (Inl e, w3)"
  using assms
  by (simp add: GitHubPythonTest_create_def Workflow_create_def get_workflow_definition_def
      GitHubPythonTest_def Let_def)

lemma invocation_raises:
  assumes p: "create_arguments rest = Inr kw" "effective_args args w = ''create'' # rest"
    and m: "mkdir_parents (butlast (workflow_path pr (GitHubPythonTest all))) w = (Inr (), w1)"
    and ow: "open_w (workflow_path pr (GitHubPythonTest all)) w1 = (Inr (), w2)"
    and j: "GitHubPythonTest_get_jobs all kw w2 = (Inl NotImplementedError, w3)"
  shows "Command_call (GitHubPythonTest_command pr all create_arguments) args w
           = (Inl NotImplementedError, w3)"
    and "w3 = w\<lparr>dirs := dirs w3, stdin := stdin w3,
                 files := (files w)(workflow_path pr (GitHubPythonTest all) \<mapsto> Text [])\<rparr>"
proof -
  have c: "GitHubPythonTest_create pr all kw w = (Inl NotImplementedError, w3)"
    using j m ow by (rule create_raises)
  have h: "handle (GitHubPythonTest_command pr all create_arguments)
             (Some (GitHubPythonTest_create pr all kw))
             (entered (ccwd (GitHubPythonTest_command pr all create_arguments)) w)
           = (Inl NotImplementedError, w3)"
    using c by (simp add: GitHubPythonTest_command_def Workflow_command_def Workflow_handle_def
        GitHubPythonTest_def entered_def)
  have e: "can_enter (ccwd (GitHubPythonTest_command pr all create_arguments)) w"
    by (simp add: GitHubPythonTest_command_def Workflow_command_def GitHubPythonTest_def
        can_enter_def)
  have pa: "parse_args (GitHubPythonTest_command pr all create_arguments) (effective_args args w)
      = Inr (Some (GitHubPythonTest_create pr all kw))"
    using p by (simp add: GitHubPythonTest_command_def Workflow_command_def add_arguments_def)
  show "Command_call (GitHubPythonTest_command pr all create_arguments) args w
           = (Inl NotImplementedError, w3)"
    using pa set_cwd_raise [of "ccwd (GitHubPythonTest_command pr all create_arguments)" w
        "handle (GitHubPythonTest_command pr all create_arguments)
           (Some (GitHubPythonTest_create pr all kw))" NotImplementedError w3, OF e h]
    by (simp add: Command_call_def)
  from m have f1: "cwd w1 = cwd w \<and> files w1 = files w \<and> argv w1 = argv w \<and> stdin w1 = stdin w
     \<and> stderr w1 = stderr w"
    unfolding mkdir_parents_def by (rule mkdir_from_fields)
  note f2 = open_w_fields [OF ow]
  from get_jobs_reads [OF j] have f3: "cwd w3 = cwd w2" "dirs w3 = dirs w2" "files w3 = files w2"
    "argv w3 = argv w2" "stderr w3 = stderr w2"
    by (simp_all add: reads_only_def)
  show "w3 = w\<lparr>dirs := dirs w3, stdin := stdin w3,
                 files := (files w)(workflow_path pr (GitHubPythonTest all) \<mapsto> Text [])\<rparr>"
    by (rule world.equality) (simp_all add: f1 f2 f3)
qed

lemma get_linters_explicit:
  "ts \<noteq> [] \<Longrightarrow> \<exists>j. get_linters jobs (Some ts) w = (Inr j, w)"
  by (simp add: get_linters_def selected_explicit Let_def)

lemma get_static_tests_explicit:
  "ts \<noteq> [] \<Longrightarrow> \<exists>j. get_static_tests jobs (Some ts) w = (Inr j, w)"
  by (simp add: get_static_tests_def selected_explicit Let_def)

lemma get_tests_explicit:
  "ts \<noteq> [] \<Longrightarrow> \<exists>j. get_tests all jobs (Some ts) w = (Inr j, w)"
  by (simp add: get_tests_def selected_explicit get_tests_loop_explicit)

lemma get_jobs_regressed:
  assumes "tests kw = Some ts" "ts \<noteq> []" "''coverage'' \<in> set ts \<or> ''ALL'' \<in> set ts"
    "coverage_fail_regressed kw = Some True"
  shows "GitHubPythonTest_get_jobs all kw w = (Inl NotImplementedError, w)"
proof -
  from get_linters_explicit [OF assms(2), of "[]" w] obtain j1 where
    a: "get_linters [] (Some ts) w = (Inr j1, w)" by (elim exE)
  from get_static_tests_explicit [OF assms(2), of j1 w] obtain j2 where
    b: "get_static_tests j1 (Some ts) w = (Inr j2, w)" by (elim exE)
  from get_tests_explicit [OF assms(2), of all j2 w] obtain j3 where
    c: "get_tests all j2 (Some ts) w = (Inr j3, w)" by (elim exE)
  have "selected ''Do you want to run coverage?'' ''coverage'' (Some ts) w = (Inr True, w)"
    using assms(2,3) by (simp add: selected_explicit)
  then have d: "get_coverage j3 (Some ts) (coverage_fail_under kw) (Some True) w
      = (Inl NotImplementedError, w)"
    by (rule coverage_regressed)
  show ?thesis
    by (simp add: GitHubPythonTest_get_jobs_def assms(1,4) a b c d)
qed

text \<open>
  C10, as the code has it. Whenever the coverage job is selected, by the test list or
  by the answer to the prompt, and the regression flag is true, \<^verbatim>\<open>get_coverage\<close> raises
  \<open>NotImplementedError\<close>, and so does the job-graph assembly once the stages before it
  have returned; with a test list that selects coverage they always do, and nothing is
  read from the terminal. An invocation of \<^verbatim>\<open>create\<close> in which the assembly raises it
  ends with this exception, uncaught: nothing is printed and it is not turned into
  \<open>SystemExit 1\<close>. No document is serialized and the build action is not written, but
  the pipeline file has been opened for writing before the job graph is assembled: of
  the state only the directories, the pending input and that file have changed, and
  the file is empty.
\<close>

theorem regressed_coverage_propagates:
  "(selected ''Do you want to run coverage?'' ''coverage'' tsts w = (Inr True, w') \<longrightarrow>
      get_coverage jobs tsts fu (Some True) w = (Inl NotImplementedError, w'))
   \<and> (coverage_fail_regressed kw = Some True
        \<and> get_linters [] (tests kw) w = (Inr j1, wa)
        \<and> get_static_tests j1 (tests kw) wa = (Inr j2, wb)
        \<and> get_tests all j2 (tests kw) wb = (Inr j3, wc)
        \<and> selected ''Do you want to run coverage?'' ''coverage'' (tests kw) wc = (Inr True, wd)
        \<longrightarrow> GitHubPythonTest_get_jobs all kw w = (Inl NotImplementedError, wd))
   \<and> (coverage_fail_regressed kw = Some True \<and> tests kw = Some ts \<and> ts \<noteq> []
        \<and> (''coverage'' \<in> set ts \<or> ''ALL'' \<in> set ts)
        \<longrightarrow> GitHubPythonTest_get_jobs all kw w = (Inl NotImplementedError, w))
   \<and> (create_arguments rest = Inr kw \<and> effective_args args w = ''create'' # rest
        \<and> mkdir_parents (butlast (workflow_path pr (GitHubPythonTest all))) w = (Inr (), w1)
        \<and> open_w (workflow_path pr (GitHubPythonTest all)) w1 = (Inr (), w2)
        \<and> GitHubPythonTest_get_jobs all kw w2 = (Inl NotImplementedError, w3)
        \<longrightarrow> Command_call (GitHubPythonTest_command pr all create_arguments) args w
              = (Inl NotImplementedError, w3)
            \<and> w3 = w\<lparr>dirs := dirs w3, stdin := stdin w3,
                      files := (files w)(workflow_path pr (GitHubPythonTest all) \<mapsto> Text [])\<rparr>)"
proof (intro conjI impI)
  assume "selected ''Do you want to run coverage?'' ''coverage'' tsts w = (Inr True, w')"
  then show "get_coverage jobs tsts fu (Some True) w = (Inl NotImplementedError, w')"
    by (rule coverage_regressed)
next
  assume a: "coverage_fail_regressed kw = Some True
        \<and> get_linters [] (tests kw) w = (Inr j1, wa)
        \<and> get_static_tests j1 (tests kw) wa = (Inr j2, wb)
        \<and> get_tests all j2 (tests kw) wb = (Inr j3, wc)
        \<and> selected ''Do you want to run coverage?'' ''coverage'' (tests kw) wc = (Inr True, wd)"
  show "GitHubPythonTest_get_jobs all kw w = (Inl NotImplementedError, wd)"
    by (rule get_jobs_raises [of kw w j1 wa j2 wb all j3 wc wd]) (simp_all add: a)
next
  assume a: "coverage_fail_regressed kw = Some True \<and> tests kw = Some ts \<and> ts \<noteq> []
        \<and> (''coverage'' \<in> set ts \<or> ''ALL'' \<in> set ts)"
  show "GitHubPythonTest_get_jobs all kw w = (Inl NotImplementedError, w)"
    by (rule get_jobs_regressed [of kw ts]) (simp_all add: a)
next
  assume a: "create_arguments rest = Inr kw \<and> effective_args args w = ''create'' # rest
        \<and> mkdir_parents (butlast (workflow_path pr (GitHubPythonTest all))) w = (Inr (), w1)
        \<and> open_w (workflow_path pr (GitHubPythonTest all)) w1 = (Inr (), w2)
        \<and> GitHubPythonTest_get_jobs all kw w2 = (Inl NotImplementedError, w3)"
  show "Command_call (GitHubPythonTest_command pr all create_arguments) args w
              = (Inl NotImplementedError, w3)"
    by (rule invocation_raises(1) [of create_arguments rest kw args w pr all w1 w2 w3])
       (simp_all add: a)
next
  assume a: "create_arguments rest = Inr kw \<and> effective_args args w = ''create'' # rest
        \<and> mkdir_parents (butlast (workflow_path pr (GitHubPythonTest all))) w = (Inr (), w1)
        \<and> open_w (workflow_path pr (GitHubPythonTest all)) w1 = (Inr (), w2)
        \<and> GitHubPythonTest_get_jobs all kw w2 = (Inl NotImplementedError, w3)"
  show "w3 = w\<lparr>dirs := dirs w3, stdin := stdin w3,
                      files := (files w)(workflow_path pr (GitHubPythonTest all) \<mapsto> Text [])\<rparr>"
    by (rule invocation_raises(2) [of create_arguments rest kw args w pr all w1 w2 w3])
       (simp_all add: a)
qed

lemma python_test_path:
  "workflow_path src (GitHubPythonTest all) = python_test_path"
  by (simp add: workflow_path_def joinpath_def parts_def startswith_def BASE_WORKFLOW_DIR_def
      src_def repo_def GitHubPythonTest_def python_test_path_def)

lemma mkdir0:
  "mkdir_parents (butlast python_test_path) world0
     = (Inr (), world0\<lparr>dirs := {[''home''], repo, repo @ [''src''], repo @ [''.github''],
                                  repo @ [''.github'', ''workflows'']}\<rparr>)"
  by (auto simp: mkdir_parents_def python_test_path_def repo_def world0_def Let_def)

lemma open0:
  "open_w python_test_path (world0\<lparr>dirs := {[''home''], repo, repo @ [''src''], repo @ [''.github''],
                                  repo @ [''.github'', ''workflows'']}\<rparr>)
     = (Inr (), world0\<lparr>dirs := {[''home''], repo, repo @ [''src''], repo @ [''.github''],
                                  repo @ [''.github'', ''workflows'']},
                       files := [python_test_path \<mapsto> Text []]\<rparr>)"
  by (simp add: open_w_def python_test_path_def repo_def world0_def below_file_def ancestors_def)

lemma regressed_sel: "tests regressed = Some [''coverage'']" "coverage_fail_regressed regressed = Some True"
  by (simp_all add: regressed_def)

lemma asked_fields: "tests asked = None" "coverage_fail_regressed asked = Some True"
  by (simp_all add: asked_def)

lemma asked_linters:
  "get_linters [] None (world_asked ['''', ''n'', ''n'', ''n'', ''n'', ''Y''])
     = (Inr [(''ruff'', ruff_job)], world_asked [''n'', ''n'', ''n'', ''Y''])"
  by (simp add: get_linters_def selected_def prompt_bool_def lower_def lower_char_def Let_def
      world_asked_def)

lemma asked_static:
  "get_static_tests [(''ruff'', ruff_job)] None (world_asked [''n'', ''n'', ''n'', ''Y''])
     = (Inr [(''ruff'', ruff_job)], world_asked [''n'', ''Y''])"
  by (simp add: get_static_tests_def selected_def prompt_bool_def lower_def lower_char_def Let_def
      world_asked_def)

lemma asked_tests:
  "get_tests [Pytest] [(''ruff'', ruff_job)] None (world_asked [''n'', ''Y''])
     = (Inr [(''ruff'', ruff_job)], world_asked [''Y''])"
  by (simp add: get_tests_def selected_def prompt_bool_def lower_def lower_char_def Let_def
      world_asked_def Pytest_def)

lemma asked_coverage:
  "selected ''Do you want to run coverage?'' ''coverage'' None (world_asked [''Y''])
     = (Inr True, world_asked [])"
  by (simp add: selected_def prompt_bool_def lower_def lower_char_def Let_def world_asked_def)

theorem regressed_coverage_propagates_witness:
  "get_coverage [] None None (Some True) (world_asked [''Y''])
     = (Inl NotImplementedError, world_asked [])
   \<and> GitHubPythonTest_get_jobs [Pytest] asked (world_asked ['''', ''n'', ''n'', ''n'', ''n'', ''Y''])
     = (Inl NotImplementedError, world_asked [])
   \<and> GitHubPythonTest_get_jobs [Pytest] regressed world0 = (Inl NotImplementedError, world0)
   \<and> Command_call (GitHubPythonTest_command src [Pytest] create_arguments0)
        (Some [''create'', ''coverage'', ''--coverage-fail-regressed'', ''1'']) world0
      = (Inl NotImplementedError,
         world0\<lparr>dirs := {[''home''], repo, repo @ [''src''], repo @ [''.github''],
                                  repo @ [''.github'', ''workflows'']},
                       files := [python_test_path \<mapsto> Text []]\<rparr>)"
proof -
  let ?w1 = "world0\<lparr>dirs := {[''home''], repo, repo @ [''src''], repo @ [''.github''],
                                  repo @ [''.github'', ''workflows'']}\<rparr>"
  let ?w2 = "world0\<lparr>dirs := {[''home''], repo, repo @ [''src''], repo @ [''.github''],
                                  repo @ [''.github'', ''workflows'']},
                       files := [python_test_path \<mapsto> Text []]\<rparr>"
  have j: "GitHubPythonTest_get_jobs [Pytest] regressed ?w2 = (Inl NotImplementedError, ?w2)"
    by (rule get_jobs_regressed [of regressed "[''coverage'']"]) (simp_all add: regressed_def)
  have asked_part:
    "get_coverage [] None None (Some True) (world_asked [''Y''])
       = (Inl NotImplementedError, world_asked [])"
    using regressed_coverage_propagates [where tsts = None and w = "world_asked [''Y'']"
        and w' = "world_asked []" and jobs = "[]" and fu = None]
      asked_coverage
    by simp
  have asked_graph:
    "GitHubPythonTest_get_jobs [Pytest] asked (world_asked ['''', ''n'', ''n'', ''n'', ''n'', ''Y''])
       = (Inl NotImplementedError, world_asked [])"
    using regressed_coverage_propagates [where kw = asked
        and w = "world_asked ['''', ''n'', ''n'', ''n'', ''n'', ''Y'']"
        and ?j1.0 = "[(''ruff'', ruff_job)]" and wa = "world_asked [''n'', ''n'', ''n'', ''Y'']"
        and ?j2.0 = "[(''ruff'', ruff_job)]" and wb = "world_asked [''n'', ''Y'']"
        and ?j3.0 = "[(''ruff'', ruff_job)]" and wc = "world_asked [''Y'']"
        and wd = "world_asked []" and all = "[Pytest]"]
      asked_linters asked_static asked_tests asked_coverage
    by (simp add: asked_fields)
  have listed:
    "GitHubPythonTest_get_jobs [Pytest] regressed world0 = (Inl NotImplementedError, world0)
     \<and> Command_call (GitHubPythonTest_command src [Pytest] create_arguments0)
        (Some [''create'', ''coverage'', ''--coverage-fail-regressed'', ''1'']) world0
      = (Inl NotImplementedError, ?w2)"
    using regressed_coverage_propagates [where kw = regressed and ts = "[''coverage'']"
        and w = world0 and all = "[Pytest]" and create_arguments = create_arguments0
        and rest = "[''coverage'', ''--coverage-fail-regressed'', ''1'']"
        and args = "Some [''create'', ''coverage'', ''--coverage-fail-regressed'', ''1'']"
        and pr = src and ?w1.0 = ?w1 and ?w2.0 = ?w2 and ?w3.0 = ?w2]
      mkdir0 open0 j
    by (simp add: regressed_sel python_test_path create_arguments0_def)
  from asked_part asked_graph listed show ?thesis by simp
qed

lemma scenario_jobs:
  "GitHubPythonTest_get_jobs [Pytest] scenario w
     = (Inr [(''ruff'', ruff_job), (''python-tests-passed'', tests_passed_job [''ruff''])], w)"
  by (simp add: GitHubPythonTest_get_jobs_def scenario_def get_linters_def get_static_tests_def
      get_tests_def get_coverage_def get_tests_passed_def selected_def Pytest_def keys_def)

lemma scenario_definition:
  "get_workflow_definition (GitHubPythonTest [Pytest]) scenario w = (Inr scenario_document, w)"
  by (simp add: get_workflow_definition_def GitHubPythonTest_def scenario_jobs
      Workflow_get_permissions_def scenario_document_def)

lemma scenario_created:
  "Workflow_create src (GitHubPythonTest [Pytest]) scenario world0 = (Inr (), world_documented)"
  by (simp add: Workflow_create_def python_test_path mkdir0 open0 scenario_definition
      world_documented_def)

lemma mkdir1: "mkdir_parents (butlast python_test_path) world_documented = (Inr (), world_documented)"
  by (auto simp: mkdir_parents_def python_test_path_def repo_def world0_def world_documented_def
      Let_def insert_absorb)

lemma open1:
  "open_w python_test_path world_documented
     = (Inr (), world_documented\<lparr>files := [python_test_path \<mapsto> Text []]\<rparr>)"
  by (simp add: open_w_def python_test_path_def repo_def world0_def world_documented_def
      below_file_def ancestors_def)

text \<open>
  C10, as stated, says that no document is written. The failing \<^verbatim>\<open>create\<close> leaves an
  empty pipeline file where there was none, and where an earlier \<^verbatim>\<open>create\<close> had
  written the document of the scenario, the failing one leaves the file empty.
\<close>

theorem failed_create_leaves_empty_file:
  "fst (GitHubPythonTest_create src [Pytest] regressed world0) = Inl NotImplementedError
   \<and> files world0 python_test_path = None
   \<and> files (snd (GitHubPythonTest_create src [Pytest] regressed world0)) python_test_path
       = Some (Text [])
   \<and> Workflow_create src (GitHubPythonTest [Pytest]) scenario world0 = (Inr (), world_documented)
   \<and> files world_documented python_test_path = Some (Dumped (Map scenario_document))
   \<and> files (snd (GitHubPythonTest_create src [Pytest] regressed world_documented)) python_test_path
       = Some (Text [])"
proof -
  have j: "GitHubPythonTest_get_jobs [Pytest] regressed w = (Inl NotImplementedError, w)" for w
    by (rule get_jobs_regressed [of regressed "[''coverage'']"]) (simp_all add: regressed_def)
  have a: "GitHubPythonTest_create src [Pytest] regressed world0
      = (Inl NotImplementedError,
         world0\<lparr>dirs := {[''home''], repo, repo @ [''src''], repo @ [''.github''],
                                  repo @ [''.github'', ''workflows'']},
                       files := [python_test_path \<mapsto> Text []]\<rparr>)"
    by (rule create_raises [where pr = src, OF j, unfolded python_test_path, OF mkdir0 open0])
  have b: "GitHubPythonTest_create src [Pytest] regressed world_documented
      = (Inl NotImplementedError, world_documented\<lparr>files := [python_test_path \<mapsto> Text []]\<rparr>)"
    by (rule create_raises [where pr = src, OF j, unfolded python_test_path, OF mkdir1 open1])
  show ?thesis
    using a b scenario_created by (simp add: world0_def world_documented_def)
qed

section \<open>Creating and deleting documents\<close>

lemma except_returned:
  "except_CommandError x = (Inr u, w1) \<Longrightarrow> x = (Inr u, w1)"
proof (cases x)
  case (Pair r w)
  assume e: "except_CommandError x = (Inr u, w1)"
  show ?thesis
  proof (cases r)
    case (Inl ex)
    with Pair e show ?thesis by (cases ex) simp_all
  next
    case (Inr v)
    with Pair e show ?thesis by simp
  qed
qed

lemma chdir_files: "chdir d w = (r, w') \<Longrightarrow> files w' = files w"
  by (auto simp: chdir_def split: if_splits)

lemma set_cwd_returned:
  assumes "set_cwd override body w = (Inr x, w1)"
  shows "\<exists>w0 w'. body w0 = (Inr x, w') \<and> files w0 = files w \<and> files w1 = files w'"
proof -
  obtain r0 w0 where e: "(case override of None \<Rightarrow> (Inr (), w) | Some d \<Rightarrow> chdir d w) = (r0, w0)"
    by (cases "case override of None \<Rightarrow> (Inr (), w) | Some d \<Rightarrow> chdir d w")
  then have f0: "files w0 = files w"
    by (auto split: option.splits dest: chdir_files)
  obtain rb w' where b: "body w0 = (rb, w')" by (cases "body w0")
  obtain rc w3 where c: "chdir (cwd w) w' = (rc, w3)" by (cases "chdir (cwd w) w'")
  from assms e b c have "rb = Inr x" "w1 = w3"
    by (auto simp: set_cwd_def Let_def split: sum.splits)
  with chdir_files [OF c] b f0 show ?thesis by auto
qed

lemma Action_create_files:
  "Action_create pr a w = (Inr (), w') \<Longrightarrow>
     files w' = (files w)(action_path pr a @ [''action.yml'']
                   \<mapsto> Dumped (Map (get_action_definition a)))"
  by (auto simp: Action_create_def split: prod.splits sum.splits
      dest!: mkdir_parents_files open_w_files)

lemma build_command_files:
  assumes "Command_call (Action_command nm pr a) (Some [''create'']) w = (Inr (), w1)"
  shows "files w1 = (files w)(action_path pr a @ [''action.yml'']
                   \<mapsto> Dumped (Map (get_action_definition a)))"
proof -
  have p: "parse_args (Action_command nm pr a) (effective_args (Some [''create'']) w)
      = Inr (Some (Action_create pr a))"
    by (simp add: Action_command_def add_arguments_def no_arguments_def)
  have h: "handle (Action_command nm pr a) (Some (Action_create pr a)) = Action_create pr a"
    by (simp add: Action_command_def Action_handle_def fun_eq_iff)
  from assms p h have
    "set_cwd (ccwd (Action_command nm pr a)) (Action_create pr a) w = (Inr (), w1)"
    by (auto simp: Command_call_def dest: except_returned)
  from set_cwd_returned [OF this] obtain w0 w' where
    "Action_create pr a w0 = (Inr (), w')" "files w0 = files w" "files w1 = files w'"
    by (elim exE conjE)
  with Action_create_files [of pr a w0 w'] show ?thesis by simp
qed

lemma Workflow_create_files:
  "Workflow_create pr flow kw w = (Inr (), w1) \<Longrightarrow> workflow_path pr flow \<in> dom (files w1)"
  by (auto simp: Workflow_create_def split: prod.splits sum.splits)

lemma paths_differ:
  "workflow_path pr (GitHubPythonTest all) \<noteq> build_file pr"
  by (simp add: workflow_path_def build_file_def action_path_def joinpath_def parts_def
      startswith_def BASE_WORKFLOW_DIR_def BASE_ACTION_DIR_def GitHubPythonTest_def
      PythonBuildAction_def)

lemma generator_create_then_delete:
  assumes "GitHubPythonTest_create pr all kw w = (Inr (), w1)"
  shows "Workflow_delete pr (GitHubPythonTest all) w1
           = (Inr (), w1\<lparr>files := (files w1)(workflow_path pr (GitHubPythonTest all) := None)\<rparr>)"
    and "files w1 (build_file pr) = Some (Dumped (Map (get_action_definition PythonBuildAction)))"
proof -
  from assms obtain wa where
    c: "Workflow_create pr (GitHubPythonTest all) kw w = (Inr (), wa)" and
    b: "Command_call (Action_command ''github_python_build'' pr PythonBuildAction)
          (Some [''create'']) wa = (Inr (), w1)"
    by (auto simp: GitHubPythonTest_create_def split: prod.splits sum.splits)
  note f = build_command_files [OF b]
  from Workflow_create_files [OF c] f have "workflow_path pr (GitHubPythonTest all) \<in> dom (files w1)"
    by (auto simp: dom_def)
  then show "Workflow_delete pr (GitHubPythonTest all) w1
           = (Inr (), w1\<lparr>files := (files w1)(workflow_path pr (GitHubPythonTest all) := None)\<rparr>)"
    by (simp add: Workflow_delete_def exists_def remove_def)
  from f show "files w1 (build_file pr)
      = Some (Dumped (Map (get_action_definition PythonBuildAction)))"
    by (simp add: build_file_def)
qed

text \<open>
  C3, as the code has it. For every pipeline builder and every action builder,
  whatever their identifiers: after a \<^verbatim>\<open>create\<close> of \<^verbatim>\<open>Workflow\<close> or \<^verbatim>\<open>Action\<close> that
  returned, \<^verbatim>\<open>delete\<close> returns and the builder's document file is no longer on disk (for
  an action, the files on disk are those from before the \<^verbatim>\<open>create\<close>, less the document).
  After a \<^verbatim>\<open>create\<close> of the test-pipeline generator that returned, \<^verbatim>\<open>delete\<close> returns and
  the pipeline document is gone, but the document of the build action, which that
  \<^verbatim>\<open>create\<close> wrote as well, is still on disk. \<^verbatim>\<open>delete\<close> of a pipeline document that does
  not exist returns and changes nothing; \<^verbatim>\<open>delete\<close> of an action document that does not
  exist raises \<open>FileNotFoundError\<close>, or \<open>NotADirectoryError\<close> when its path lies below a
  regular file. The directories that \<^verbatim>\<open>create\<close> made stay.
\<close>

theorem create_then_delete:
  "(Workflow_create pr flow kw w = (Inr (), w1) \<longrightarrow>
      Workflow_delete pr flow w1
        = (Inr (), w1\<lparr>files := (files w1)(workflow_path pr flow := None)\<rparr>)
      \<and> files (snd (Workflow_delete pr flow w1)) (workflow_path pr flow) = None)
   \<and> (Action_create pr a w = (Inr (), w2) \<longrightarrow>
      fst (Action_delete pr a w2) = Inr ()
      \<and> files (snd (Action_delete pr a w2)) = (files w)(action_path pr a @ [''action.yml''] := None))
   \<and> (GitHubPythonTest_create pr all tkw w = (Inr (), w3) \<longrightarrow>
      Workflow_delete pr (GitHubPythonTest all) w3
        = (Inr (), w3\<lparr>files := (files w3)(workflow_path pr (GitHubPythonTest all) := None)\<rparr>)
      \<and> files (snd (Workflow_delete pr (GitHubPythonTest all) w3))
            (workflow_path pr (GitHubPythonTest all)) = None
      \<and> files (snd (Workflow_delete pr (GitHubPythonTest all) w3)) (build_file pr)
          = Some (Dumped (Map (get_action_definition PythonBuildAction))))
   \<and> (\<not> exists (workflow_path pr flow) w \<longrightarrow> Workflow_delete pr flow w = (Inr (), w))
   \<and> (\<not> exists (action_path pr a @ [''action.yml'']) w \<longrightarrow>
        Action_delete pr a w
          = (Inl (if below_file (action_path pr a @ [''action.yml'']) w then NotADirectoryError
                  else FileNotFoundError), w))"
proof -
  have wd: "Workflow_delete pr flow w1
        = (Inr (), w1\<lparr>files := (files w1)(workflow_path pr flow := None)\<rparr>)
      \<and> files (snd (Workflow_delete pr flow w1)) (workflow_path pr flow) = None"
    if c: "Workflow_create pr flow kw w = (Inr (), w1)"
  proof -
    from c have "workflow_path pr flow \<in> dom (files w1)"
      by (rule Workflow_create_files)
    then show ?thesis
      by (simp add: Workflow_delete_def exists_def remove_def)
  qed
  have ad: "fst (Action_delete pr a w2) = Inr ()
      \<and> files (snd (Action_delete pr a w2)) = (files w)(action_path pr a @ [''action.yml''] := None)"
    if c: "Action_create pr a w = (Inr (), w2)"
    using Action_create_files [OF c] by (simp add: Action_delete_def remove_def)
  have gd: "Workflow_delete pr (GitHubPythonTest all) w3
        = (Inr (), w3\<lparr>files := (files w3)(workflow_path pr (GitHubPythonTest all) := None)\<rparr>)
      \<and> files (snd (Workflow_delete pr (GitHubPythonTest all) w3))
            (workflow_path pr (GitHubPythonTest all)) = None
      \<and> files (snd (Workflow_delete pr (GitHubPythonTest all) w3)) (build_file pr)
          = Some (Dumped (Map (get_action_definition PythonBuildAction)))"
    if c: "GitHubPythonTest_create pr all tkw w = (Inr (), w3)"
    using generator_create_then_delete [OF c] paths_differ [of pr all]
    by (simp add: eq_commute)
  have wn: "Workflow_delete pr flow w = (Inr (), w)" if "\<not> exists (workflow_path pr flow) w"
    using that by (simp add: Workflow_delete_def)
  have an: "Action_delete pr a w
          = (Inl (if below_file (action_path pr a @ [''action.yml'']) w then NotADirectoryError
                  else FileNotFoundError), w)"
    if "\<not> exists (action_path pr a @ [''action.yml'']) w"
    using that by (simp add: Action_delete_def remove_def exists_def)
  show ?thesis
    apply (intro conjI impI)
    subgoal by (rule wd [THEN conjunct1])
    subgoal by (rule wd [THEN conjunct2])
    subgoal by (rule ad [THEN conjunct1])
    subgoal by (rule ad [THEN conjunct2])
    subgoal by (rule gd [THEN conjunct1])
    subgoal by (rule gd [THEN conjunct2, THEN conjunct1])
    subgoal by (rule gd [THEN conjunct2, THEN conjunct2])
    subgoal by (rule wn)
    subgoal by (rule an)
    done
qed

lemma build_file_src: "build_file src = [''home'', ''repo'', ''.github'', ''actions'', ''build'', ''action.yml'']"
  by (simp add: build_file_def build_path)

lemma build_cwd: "action_cwd PythonBuildAction = None"
  by (simp add: PythonBuildAction_def)

lemma build_action_created:
  "Action_create src PythonBuildAction world_documented = (Inr (), world_built)"
  by (auto simp: Action_create_def build_path mkdir_parents_def open_w_def below_file_def
      ancestors_def world_documented_def world_built_def world0_def python_test_path_def repo_def
      build_file_src Let_def)

lemma build_created:
  "Command_call (Action_command ''github_python_build'' src PythonBuildAction) (Some [''create''])
     world_documented = (Inr (), world_built)"
proof -
  have c: "cwd world_documented \<in> dirs world_built" "cwd world_built = cwd world_documented"
    by (simp_all add: world_built_def world_documented_def world0_def repo_def)
  have "set_cwd None (Action_create src PythonBuildAction) world_documented = (Inr (), world_built)"
    using c by (simp add: set_cwd_def build_action_created chdir_def Let_def)
  moreover have "Action_handle (Some (Action_create src PythonBuildAction))
      = Action_create src PythonBuildAction"
    by (simp add: Action_handle_def fun_eq_iff)
  ultimately show ?thesis
    by (simp add: Command_call_def Action_command_def add_arguments_def no_arguments_def
        build_cwd)
qed

lemma generator_created:
  "GitHubPythonTest_create src [Pytest] scenario world0 = (Inr (), world_built)"
  by (simp add: GitHubPythonTest_create_def scenario_created build_created)

text \<open>
  C3, as stated, fails for the identifier \<^verbatim>\<open>python-test\<close>: \<^verbatim>\<open>create\<close> of the generator
  for the scenario followed by \<^verbatim>\<open>delete\<close> leaves the build action's document on disk,
  where there was none before.
\<close>

theorem generator_leaves_build_action:
  "GitHubPythonTest_create src [Pytest] scenario world0 = (Inr (), world_built)
   \<and> fst (Workflow_delete src (GitHubPythonTest [Pytest]) world_built) = Inr ()
   \<and> files world0 (build_file src) = None
   \<and> files (snd (Workflow_delete src (GitHubPythonTest [Pytest]) world_built)) (build_file src)
       = Some (Dumped (Map (get_action_definition PythonBuildAction)))"
proof -
  have p: "python_test_path \<in> dom (files world_built)" "python_test_path \<noteq> build_file src"
    by (simp_all add: world_built_def world_documented_def build_file_src python_test_path_def
        repo_def)
  have d: "Workflow_delete src (GitHubPythonTest [Pytest]) world_built
      = (Inr (), world_built\<lparr>files := (files world_built)(python_test_path := None)\<rparr>)"
    using p(1) by (simp add: Workflow_delete_def exists_def remove_def python_test_path)
  have f: "files world_built (build_file src)
      = Some (Dumped (Map (get_action_definition PythonBuildAction)))"
    by (simp add: world_built_def)
  show ?thesis
    using generator_created d f p(2) by (simp add: world0_def eq_commute)
qed

theorem create_then_delete_witness:
  "fst (Workflow_create src bare_workflow () world0) = Inr ()
   \<and> fst (Workflow_delete src bare_workflow (snd (Workflow_create src bare_workflow () world0))) = Inr ()
   \<and> files (snd (Workflow_delete src bare_workflow (snd (Workflow_create src bare_workflow () world0))))
        (workflow_path src bare_workflow) = None
   \<and> fst (Action_create src PythonBuildAction world0) = Inr ()
   \<and> fst (Action_delete src PythonBuildAction (snd (Action_create src PythonBuildAction world0))) = Inr ()
   \<and> files (snd (Action_delete src PythonBuildAction (snd (Action_create src PythonBuildAction world0))))
       = files world0
   \<and> GitHubPythonTest_create src [Pytest] scenario world0 = (Inr (), world_built)
   \<and> fst (Workflow_delete src (GitHubPythonTest [Pytest]) world_built) = Inr ()
   \<and> files (snd (Workflow_delete src (GitHubPythonTest [Pytest]) world_built))
        (workflow_path src (GitHubPythonTest [Pytest])) = None
   \<and> \<not> exists (workflow_path src bare_workflow) world0
   \<and> Workflow_delete src bare_workflow world0 = (Inr (), world0)
   \<and> \<not> exists (action_path src PythonBuildAction @ [''action.yml'']) world0
   \<and> Action_delete src PythonBuildAction world0 = (Inl FileNotFoundError, world0)
   \<and> \<not> exists (action_path src PythonBuildAction @ [''action.yml'']) world_blocked
   \<and> Action_delete src PythonBuildAction world_blocked = (Inl NotADirectoryError, world_blocked)"
proof -
  have c1: "Workflow_create src bare_workflow () world0
      = (Inr (), snd (Workflow_create src bare_workflow () world0))"
    using bare_create by (simp add: prod_eq_iff)
  have c2: "Action_create src PythonBuildAction world0
      = (Inr (), snd (Action_create src PythonBuildAction world0))"
    using build_create by (simp add: prod_eq_iff)
  have n1: "\<not> exists (workflow_path src bare_workflow) world0"
    by (simp add: exists_def bare_path world0_def repo_def)
  have n2: "\<not> exists (action_path src PythonBuildAction @ [''action.yml'']) world0"
    by (simp add: exists_def build_path world0_def repo_def)
  have n3: "\<not> below_file (action_path src PythonBuildAction @ [''action.yml'']) world0"
    by (simp add: below_file_def build_path world0_def ancestors_def)
  have e: "(files world0)(action_path src PythonBuildAction @ [''action.yml''] := None) = files world0"
    by (simp add: world0_def)
  have b: "\<not> exists (action_path src PythonBuildAction @ [''action.yml'']) world_blocked"
    "below_file (action_path src PythonBuildAction @ [''action.yml'']) world_blocked"
    by (simp_all add: exists_def below_file_def ancestors_def build_path world_blocked_def
        world0_def repo_def)
  have blocked: "Action_delete src PythonBuildAction world_blocked
      = (Inl NotADirectoryError, world_blocked)"
    using create_then_delete [of src bare_workflow "()" world_blocked
        "snd (Workflow_create src bare_workflow () world0)" PythonBuildAction
        "snd (Action_create src PythonBuildAction world0)" "[Pytest]" scenario world_built]
      b
    by simp
  show ?thesis
    using create_then_delete [of src bare_workflow "()" world0
        "snd (Workflow_create src bare_workflow () world0)" PythonBuildAction
        "snd (Action_create src PythonBuildAction world0)" "[Pytest]" scenario world_built]
      c1 c2 n1 n2 n3 e bare_create build_create generator_created b(1) blocked
    by simp
qed

end
